theory Spec2Isabelle
  imports
    Complex_Main
    "HOL-Library.Log_Nat"
    "HOL-Library.Char_ord"
    "HOL-Library.List_Lexorder"
    "HOL-Library.Option_ord"
    "HOL-Library.Product_Lexorder"
begin

section \<open>Go values\<close>

subsection \<open>float64\<close>

text \<open>
  A \<open>float64\<close> is a finite binary64 number, read as the rational it denotes, one of the
  two infinities, or NaN.  The two zeros are one value (read as \<open>+0\<close> when it divides).
  Every arithmetic operation of \<open>main.go\<close> on floats is the exact operation followed by
  rounding to the nearest binary64 number, ties to the even significand
  (\<open>round_f64\<close>).  The model rounds the product and the sum of
  \<open>rand.Float64()*(2000-1000) + 1000\<close> one after the other, as the amd64 compiler
  does; where Go fuses them into one operation the sum is rounded once, and the bounds
  proved below hold for that reading too (\<open>fused_multiplier_bounds\<close>).
\<close>

datatype float64 = Finite rat | PosInf | NegInf | NaN

definition round_half_even :: "rat \<Rightarrow> int" where
  "round_half_even x =
     (let f = \<lfloor>x\<rfloor>; d = x - of_int f
      in if d < 1 / 2 then f
         else if 1 / 2 < d then f + 1
         else if even f then f else f + 1)"

text \<open>\<open>binade x\<close> is the exponent \<open>e\<close> with \<open>2^e \<le> |x| < 2^(e+1)\<close>, for \<open>x \<noteq> 0\<close>.\<close>

definition binade :: "rat \<Rightarrow> int" where
  "binade x =
     (let (p, q) = quotient_of \<bar>x\<bar>; d = bitlen p - bitlen q
      in if 2 powi d \<le> \<bar>x\<bar> then d else d - 1)"

text \<open>
  The spacing of the binary64 numbers around \<open>x\<close>: 53 significant bits, and the fixed
  spacing \<open>2^-1074\<close> of the subnormal numbers below \<open>2^-1022\<close>.
\<close>

definition ulp :: "rat \<Rightarrow> rat" where
  "ulp x = 2 powi (max (binade x) (- 1022) - 52)"

fun sign_of :: "float64 \<Rightarrow> rat" where
  "sign_of (Finite a) = sgn a"
| "sign_of PosInf = 1"
| "sign_of NegInf = - 1"
| "sign_of NaN = 0"

definition inf_of_sign :: "rat \<Rightarrow> float64" where
  "inf_of_sign s = (if 0 < s then PosInf else if s < 0 then NegInf else NaN)"

text \<open>
  Rounding to binary64: to the nearest multiple of the spacing, and to an infinity when
  the result leaves the largest binade, that is, when its magnitude reaches \<open>2^1024\<close>.
\<close>

definition round_f64 :: "rat \<Rightarrow> float64" where
  "round_f64 x =
     (if x = 0 then Finite 0
      else let y = of_int (round_half_even (x / ulp x)) * ulp x
           in if y \<noteq> 0 \<and> 1023 < binade y then inf_of_sign y else Finite y)"

fun f64_mul :: "float64 \<Rightarrow> float64 \<Rightarrow> float64" where
  "f64_mul NaN y = NaN"
| "f64_mul x NaN = NaN"
| "f64_mul (Finite a) (Finite b) = round_f64 (a * b)"
| "f64_mul x y = inf_of_sign (sign_of x * sign_of y)"

fun f64_add :: "float64 \<Rightarrow> float64 \<Rightarrow> float64" where
  "f64_add NaN y = NaN"
| "f64_add x NaN = NaN"
| "f64_add (Finite a) (Finite b) = round_f64 (a + b)"
| "f64_add PosInf NegInf = NaN"
| "f64_add NegInf PosInf = NaN"
| "f64_add (Finite a) y = y"
| "f64_add x y = x"

fun f64_div :: "float64 \<Rightarrow> float64 \<Rightarrow> float64" where
  "f64_div NaN y = NaN"
| "f64_div x NaN = NaN"
| "f64_div (Finite a) (Finite b) =
     (if b = 0 then inf_of_sign (sgn a) else round_f64 (a / b))"
| "f64_div (Finite a) y = Finite 0"
| "f64_div x (Finite b) = inf_of_sign (sign_of x * (if b < 0 then - 1 else 1))"
| "f64_div x y = NaN"

text \<open>The conversion \<open>float64(n)\<close> of an \<open>int64\<close>.\<close>

definition f64_of_int64 :: "int \<Rightarrow> float64" where
  "f64_of_int64 n = round_f64 (of_int n)"

subsection \<open>Strings, time, maps\<close>

text \<open>
  A \<open>time.Time\<close> is an instant counted from Go's zero time, so that \<open>IsZero\<close> is
  \<open>t = 0\<close>.  Reading a missing key of a Go \<open>map[string]string\<close> gives
  the empty string.
\<close>

type_synonym time = int

definition map_index :: "(string \<rightharpoonup> string) \<Rightarrow> string \<Rightarrow> string" where
  "map_index m k = (case m k of None \<Rightarrow> [] | Some v \<Rightarrow> v)"

text \<open>
  MySQL's \<open>LOWER\<close>, on ASCII letters (bytes outside \<open>A\<close> to \<open>Z\<close> are kept).  The
  table's collation is case-insensitive (README: \<open>utf8mb4_unicode_ci\<close>): \<open>=\<close> and
  \<open>ORDER BY\<close> on a string column compare the collation keys \<open>collate\<close>, which the
  model takes to fold ASCII letter case and nothing more.
\<close>

definition lower_char :: "char \<Rightarrow> char" where
  "lower_char c =
     (let n = of_char c :: nat in if 65 \<le> n \<and> n \<le> 90 then char_of (n + 32) else c)"

definition LOWER :: "string \<Rightarrow> string" where
  "LOWER s = map lower_char s"

definition collate :: "string \<Rightarrow> string" where
  "collate s = LOWER s"

definition sql_eq :: "string \<Rightarrow> string \<Rightarrow> bool" where
  "sql_eq a b = (collate a = collate b)"

text \<open>\<open>%d\<close> of a non-negative number.\<close>

definition digit_char :: "nat \<Rightarrow> char" where
  "digit_char n = char_of (48 + n)"

fun show_nat :: "nat \<Rightarrow> string" where
  "show_nat n = (if n < 10 then [digit_char n] else show_nat (n div 10) @ [digit_char (n mod 10)])"

section \<open>The data model\<close>

record Country =
  ID :: nat
  Name :: string
  Capital :: "string option"
  Region :: "string option"
  Population :: int
  CurrencyCode :: "string option"
  ExchangeRate :: "float64 option"
  EstimatedGDP :: "float64 option"
  FlagURL :: "string option"
  LastRefreshedAt :: time

record RestCountry =
  rc_Name :: string
  rc_Capital :: string
  rc_Region :: string
  rc_Population :: int
  rc_Flag :: string
  rc_Currencies :: "(string \<rightharpoonup> string) list"

type_synonym rates = "string \<rightharpoonup> float64"

section \<open>The record store (GORM over MySQL)\<close>

text \<open>
  The table \<open>countries\<close> holds its rows; \<open>auto_increment\<close> is the next primary key.
  A statement sent to the server can fail for reasons outside the program (connection
  lost, constraint violated): \<open>faults\<close> is the script of the environment, one flag for
  each statement sent, \<open>True\<close> when that statement fails; past its end every statement
  succeeds.
\<close>

datatype gorm_error = ErrRecordNotFound | ErrMissingWhereClause | DriverError

record db_state =
  countries :: "Country list"
  auto_increment :: nat
  faults :: "bool list"

definition next_fault :: "db_state \<Rightarrow> bool \<times> db_state" where
  "next_fault d = (case faults d of [] \<Rightarrow> (False, d) | f # fs \<Rightarrow> (f, d\<lparr>faults := fs\<rparr>))"

text \<open>The zero value of \<open>Country\<close> (\<open>var existing Country\<close>).\<close>

definition zeroCountry :: Country where
  "zeroCountry =
     \<lparr> ID = 0, Name = [], Capital = None, Region = None, Population = 0,
       CurrencyCode = None, ExchangeRate = None, EstimatedGDP = None, FlagURL = None,
       LastRefreshedAt = 0 \<rparr>"

text \<open>
  \<open>db.Where("LOWER(name) = LOWER(?)", name).First(&dest)\<close>: the first matching row in
  primary-key order, or \<open>ErrRecordNotFound\<close>.
\<close>

definition first_by_name :: "string \<Rightarrow> db_state \<Rightarrow> (gorm_error + Country) \<times> db_state" where
  "first_by_name name d =
     (let (failed, d') = next_fault d
      in if failed then (Inl DriverError, d')
         else (case find (\<lambda>row. sql_eq (LOWER (Name row)) (LOWER name)) (sort_key ID (countries d')) of
                 None \<Rightarrow> (Inl ErrRecordNotFound, d')
               | Some row \<Rightarrow> (Inr row, d')))"

text \<open>
  \<open>db.Create(&row)\<close> for a row whose \<open>ID\<close> is the zero value: MySQL assigns the next
  \<open>AUTO_INCREMENT\<close> key.
\<close>

definition create :: "Country \<Rightarrow> db_state \<Rightarrow> gorm_error option \<times> db_state" where
  "create row d =
     (let (failed, d') = next_fault d
      in if failed then (Some DriverError, d')
         else (None, d'\<lparr> countries := countries d' @ [row\<lparr>ID := auto_increment d'\<rparr>],
                         auto_increment := Suc (auto_increment d') \<rparr>))"

text \<open>
  \<open>db.Model(&model).Updates(values)\<close> with a struct \<open>values\<close>: GORM assigns only the
  fields of \<open>values\<close> that are not the zero value of their type (a \<open>nil\<close> pointer, \<open>0\<close>,
  the empty string, the zero time), to the row whose primary key is \<open>model\<close>'s.  A
  \<open>model\<close> with the zero primary key gives no condition, and GORM refuses the statement
  with \<open>ErrMissingWhereClause\<close> before anything is sent.
\<close>

definition assign_nonzero :: "Country \<Rightarrow> Country \<Rightarrow> Country" where
  "assign_nonzero v row =
     row\<lparr> ID := (if ID v = 0 then ID row else ID v),
          Name := (if Name v = [] then Name row else Name v),
          Capital := (case Capital v of None \<Rightarrow> Capital row | Some x \<Rightarrow> Some x),
          Region := (case Region v of None \<Rightarrow> Region row | Some x \<Rightarrow> Some x),
          Population := (if Population v = 0 then Population row else Population v),
          CurrencyCode := (case CurrencyCode v of None \<Rightarrow> CurrencyCode row | Some x \<Rightarrow> Some x),
          ExchangeRate := (case ExchangeRate v of None \<Rightarrow> ExchangeRate row | Some x \<Rightarrow> Some x),
          EstimatedGDP := (case EstimatedGDP v of None \<Rightarrow> EstimatedGDP row | Some x \<Rightarrow> Some x),
          FlagURL := (case FlagURL v of None \<Rightarrow> FlagURL row | Some x \<Rightarrow> Some x),
          LastRefreshedAt := (if LastRefreshedAt v = 0 then LastRefreshedAt row else LastRefreshedAt v) \<rparr>"

definition updates :: "Country \<Rightarrow> Country \<Rightarrow> db_state \<Rightarrow> gorm_error option \<times> db_state" where
  "updates model v d =
     (if ID model = 0 then (Some ErrMissingWhereClause, d)
      else let (failed, d') = next_fault d
           in if failed then (Some DriverError, d')
              else (None, d'\<lparr> countries :=
                      map (\<lambda>row. if ID row = ID model then assign_nonzero v row else row) (countries d') \<rparr>))"

text \<open>\<open>db.Delete(&row)\<close>: by primary key, refused when the key is the zero value.\<close>

definition delete :: "Country \<Rightarrow> db_state \<Rightarrow> gorm_error option \<times> db_state" where
  "delete row d =
     (if ID row = 0 then (Some ErrMissingWhereClause, d)
      else let (failed, d') = next_fault d
           in if failed then (Some DriverError, d')
              else (None, d'\<lparr> countries := filter (\<lambda>r. ID r \<noteq> ID row) (countries d') \<rparr>))"

text \<open>
  The shape of the table that the program maintains: primary keys are distinct, positive
  and below the counter, and names are unique up to letter case (the unique index on
  \<open>name\<close> under the case-insensitive collation).
\<close>

definition table_ok :: "db_state \<Rightarrow> bool" where
  "table_ok d \<longleftrightarrow>
     distinct (map ID (countries d))
     \<and> 0 < auto_increment d
     \<and> (\<forall>row \<in> set (countries d). 0 < ID row \<and> ID row < auto_increment d)
     \<and> distinct (map (\<lambda>row. LOWER (Name row)) (countries d))"

text \<open>
  The query that \<open>getCountries\<close> builds: the optional \<open>region = ?\<close> and
  \<open>currency_code = ?\<close> conditions and the \<open>ORDER BY\<close> clause.  A \<open>NULL\<close> column
  satisfies no equality.  MySQL sorts \<open>NULL\<close> below every value, so first in ascending and
  last in descending order; among equal keys the model keeps the table's order.
\<close>

datatype order_by = EstimatedGdpDesc | EstimatedGdpAsc | PopulationDesc | PopulationAsc | NameAsc

record select_query =
  where_region :: "string option"
  where_currency_code :: "string option"
  order_clause :: order_by

fun f64_key :: "float64 \<Rightarrow> int \<times> rat" where
  "f64_key NegInf = (- 1, 0)"
| "f64_key (Finite a) = (0, a)"
| "f64_key PosInf = (1, 0)"
| "f64_key NaN = (2, 0)"

definition column_eq :: "string option \<Rightarrow> string \<Rightarrow> bool" where
  "column_eq col v = (case col of None \<Rightarrow> False | Some x \<Rightarrow> sql_eq x v)"

definition satisfies :: "select_query \<Rightarrow> Country \<Rightarrow> bool" where
  "satisfies q row =
     ((case where_region q of None \<Rightarrow> True | Some v \<Rightarrow> column_eq (Region row) v) \<and>
      (case where_currency_code q of None \<Rightarrow> True | Some v \<Rightarrow> column_eq (CurrencyCode row) v))"

definition order_rows :: "order_by \<Rightarrow> Country list \<Rightarrow> Country list" where
  "order_rows ob rows =
     (case ob of
        EstimatedGdpDesc \<Rightarrow> rev (sort_key (\<lambda>row. map_option f64_key (EstimatedGDP row)) (rev rows))
      | EstimatedGdpAsc \<Rightarrow> sort_key (\<lambda>row. map_option f64_key (EstimatedGDP row)) rows
      | PopulationDesc \<Rightarrow> rev (sort_key Population (rev rows))
      | PopulationAsc \<Rightarrow> sort_key Population rows
      | NameAsc \<Rightarrow> sort_key (\<lambda>row. collate (Name row)) rows)"

definition find_rows :: "select_query \<Rightarrow> db_state \<Rightarrow> (gorm_error + Country list) \<times> db_state" where
  "find_rows q d =
     (let (failed, d') = next_fault d
      in if failed then (Inl DriverError, d')
         else (Inr (order_rows (order_clause q) (filter (satisfies q) (countries d'))), d'))"

text \<open>
  The three reads of \<open>generateSummaryImage\<close> and \<open>getStatus\<close>, whose errors the program
  drops: a failed read leaves its destination at the zero value.
\<close>

definition count_rows :: "db_state \<Rightarrow> nat \<times> db_state" where
  "count_rows d =
     (let (failed, d') = next_fault d
      in if failed then (0, d') else (length (countries d'), d'))"

definition top_by_gdp :: "nat \<Rightarrow> db_state \<Rightarrow> Country list \<times> db_state" where
  "top_by_gdp n d =
     (let (failed, d') = next_fault d
      in if failed then ([], d') else (take n (order_rows EstimatedGdpDesc (countries d')), d'))"

definition max_last_refreshed :: "db_state \<Rightarrow> time \<times> db_state" where
  "max_last_refreshed d =
     (let (failed, d') = next_fault d
      in if failed \<or> countries d' = [] then (0, d')
         else (Max (set (map LastRefreshedAt (countries d'))), d'))"

section \<open>The two outbound fetches\<close>

text \<open>
  What an upstream answers to \<open>client.Get\<close>: a transport error, or a status code with a
  body that cannot be read, is not the expected JSON, or decodes to a value.
\<close>

datatype 'a http_body = ReadError string | BadJson string | Json 'a

datatype 'a http_reply = TransportError string | HttpReply nat "'a http_body"

definition fetchCountries :: "RestCountry list http_reply \<Rightarrow> string + RestCountry list" where
  "fetchCountries reply =
     (case reply of
        TransportError err \<Rightarrow> Inl err
      | HttpReply code body \<Rightarrow>
          if code \<noteq> 200 then Inl (''API returned status '' @ show_nat code)
          else (case body of
                  ReadError err \<Rightarrow> Inl err
                | BadJson err \<Rightarrow> Inl err
                | Json cs \<Rightarrow> Inr cs))"

definition fetchExchangeRates :: "rates http_reply \<Rightarrow> string + rates" where
  "fetchExchangeRates reply =
     (case reply of
        TransportError err \<Rightarrow> Inl err
      | HttpReply code body \<Rightarrow>
          if code \<noteq> 200 then Inl (''API returned status '' @ show_nat code)
          else (case body of
                  ReadError err \<Rightarrow> Inl err
                | BadJson err \<Rightarrow> Inl err
                | Json rs \<Rightarrow> Inr rs))"

section \<open>refreshCountries: building one row\<close>

definition nilIfEmpty :: "string option \<Rightarrow> string option" where
  "nilIfEmpty s = (case s of None \<Rightarrow> None | Some v \<Rightarrow> if v = [] then None else Some v)"

text \<open>\<open>randomMultiplier := rand.Float64()*(2000-1000) + 1000\<close>, for the draw \<open>r\<close>.\<close>

definition randomMultiplier :: "float64 \<Rightarrow> float64" where
  "randomMultiplier r = f64_add (f64_mul r (Finite (2000 - 1000))) (Finite 1000)"

text \<open>
  The currency part of the loop body (lines 205 to 227): the currency code, the exchange
  rate and the estimated GDP of one upstream record, and whether the draw \<open>r\<close> of the
  random source was used.  As with \<open>&&\<close>, the first entry of the list is read only
  when the list is not empty.
\<close>

definition currencyFields ::
  "rates \<Rightarrow> RestCountry \<Rightarrow> float64 \<Rightarrow> (string option \<times> float64 option \<times> float64 option) \<times> bool" where
  "currencyFields rs country r =
     (if length (rc_Currencies country) > 0 \<and> map_index (hd (rc_Currencies country)) ''code'' \<noteq> []
      then
        let code = map_index (hd (rc_Currencies country)) ''code''
        in (case rs code of
              Some rate \<Rightarrow>
                let gdp = f64_div (f64_mul (f64_of_int64 (rc_Population country)) (randomMultiplier r)) rate
                in ((Some code, Some rate, Some gdp), True)
            | None \<Rightarrow> ((Some code, None, None), False))
      else ((None, None, Some (Finite 0)), False))"

text \<open>The row \<open>dbCountry\<close> of the loop body (lines 229 to 243); its \<open>ID\<close> is the zero value.\<close>

definition dbCountry :: "time \<Rightarrow> rates \<Rightarrow> RestCountry \<Rightarrow> float64 \<Rightarrow> Country" where
  "dbCountry now rs country r =
     (let (currencyCode, exchangeRate, estimatedGDP) = fst (currencyFields rs country r)
      in \<lparr> ID = 0,
           Name = rc_Name country,
           Capital = nilIfEmpty (Some (rc_Capital country)),
           Region = nilIfEmpty (Some (rc_Region country)),
           Population = rc_Population country,
           CurrencyCode = currencyCode,
           ExchangeRate = exchangeRate,
           EstimatedGDP = estimatedGDP,
           FlagURL = nilIfEmpty (Some (rc_Flag country)),
           LastRefreshedAt = now \<rparr>)"

section \<open>The process state, requests and responses\<close>

text \<open>
  The summary image is kept as what is drawn on it: the total, the top rows by estimated
  GDP (name, and GDP or \<open>N/A\<close>) and the last refresh time.  \<open>summary_png\<close> is the file
  \<open>cache/summary.png\<close>, absent before the first successful write; \<open>create_error\<close> is
  the error that creating or writing that file meets, if any.
\<close>

record summary_image =
  total_countries :: nat
  top_countries :: "(string \<times> float64 option) list"
  last_refresh :: time

record world =
  db :: db_state
  summary_png :: "summary_image option"
  create_error :: "string option"
  log_lines :: "string list"

text \<open>
  What the outside answers during one refresh: the two replies, \<open>time.Now()\<close>, and the
  stream of values of \<open>rand.Float64()\<close> after seeding (each in \<open>[0, 1)\<close>).
\<close>

record upstream =
  countries_reply :: "RestCountry list http_reply"
  rates_reply :: "rates http_reply"
  clock :: time
  rand_Float64 :: "nat \<Rightarrow> float64"

datatype payload =
    RefreshBody string nat time
  | ErrorBody string "string option"
  | CountryBody Country
  | CountryList "Country list"
  | MessageBody string
  | StatusBody nat time
  | PngFile summary_image

record response =
  status :: nat
  body :: payload

section \<open>generateSummaryImage\<close>

definition generateSummaryImage :: "world \<Rightarrow> string option \<times> world" where
  "generateSummaryImage w =
     (let (totalCount, d1) = count_rows (db w);
          (topCountries, d2) = top_by_gdp 5 d1;
          (lastRefresh, d3) = max_last_refreshed d2;
          img = \<lparr> total_countries = totalCount,
                  top_countries = map (\<lambda>row. (Name row, EstimatedGDP row)) topCountries,
                  last_refresh = lastRefresh \<rparr>
      in case create_error w of
           Some err \<Rightarrow> (Some err, w\<lparr>db := d3\<rparr>)
         | None \<Rightarrow> (None, w\<lparr>db := d3, summary_png := Some img\<rparr>))"

section \<open>refreshCountries\<close>

text \<open>
  The loop over the fetched records (lines 204 to 256); \<open>k\<close> counts the draws taken
  from the random source so far.  The results of \<open>Create\<close> and \<open>Updates\<close> are dropped.
\<close>

fun upsert_all ::
  "time \<Rightarrow> rates \<Rightarrow> (nat \<Rightarrow> float64) \<Rightarrow> RestCountry list \<Rightarrow> nat \<Rightarrow> db_state \<Rightarrow> db_state" where
  "upsert_all now rs draws [] k d = d"
| "upsert_all now rs draws (country # rest) k d =
     (let row = dbCountry now rs country (draws k);
          used = snd (currencyFields rs country (draws k));
          (result, d1) = first_by_name (rc_Name country) d;
          existing = (case result of Inr found \<Rightarrow> found | Inl err \<Rightarrow> zeroCountry);
          d2 = (if result = Inl ErrRecordNotFound
                then snd (create row d1)
                else snd (updates existing row d1))
      in upsert_all now rs draws rest (if used then Suc k else k) d2)"

definition refreshCountries :: "upstream \<Rightarrow> world \<Rightarrow> response \<times> world" where
  "refreshCountries up w =
     (case fetchCountries (countries_reply up) of
        Inl err \<Rightarrow>
          (\<lparr> status = 503,
              body = ErrorBody ''External data source unavailable''
                       (Some (''Could not fetch data from restcountries API: '' @ err)) \<rparr>, w)
      | Inr cs \<Rightarrow>
          (case fetchExchangeRates (rates_reply up) of
             Inl err \<Rightarrow>
               (\<lparr> status = 503,
                   body = ErrorBody ''External data source unavailable''
                            (Some (''Could not fetch data from exchange rates API: '' @ err)) \<rparr>, w)
           | Inr rs \<Rightarrow>
               (let now = clock up;
                    d = upsert_all now rs (rand_Float64 up) cs 0 (db w);
                    (err, w1) = generateSummaryImage (w\<lparr>db := d\<rparr>);
                    w2 = (case err of
                            Some e \<Rightarrow> w1\<lparr>log_lines := log_lines w1 @ [''Failed to generate summary image: '' @ e]\<rparr>
                          | None \<Rightarrow> w1)
                in (\<lparr> status = 200,
                       body = RefreshBody ''Countries refreshed successfully'' (length cs) now \<rparr>, w2))))"

section \<open>The query handlers\<close>

text \<open>\<open>c.Query(key)\<close>: the empty string when the parameter is absent.\<close>

definition Query :: "(string \<rightharpoonup> string) \<Rightarrow> string \<Rightarrow> string" where
  "Query q key = (case q key of None \<Rightarrow> [] | Some v \<Rightarrow> v)"

definition internal_error :: response where
  "internal_error = \<lparr> status = 500, body = ErrorBody ''Internal server error'' None \<rparr>"

definition not_found :: response where
  "not_found = \<lparr> status = 404, body = ErrorBody ''Country not found'' None \<rparr>"

text \<open>The \<open>switch sortBy\<close> of \<open>getCountries\<close>.\<close>

definition sort_order :: "string \<Rightarrow> order_by" where
  "sort_order sortBy =
     (if sortBy = ''gdp_desc'' then EstimatedGdpDesc
      else if sortBy = ''gdp_asc'' then EstimatedGdpAsc
      else if sortBy = ''population_desc'' then PopulationDesc
      else if sortBy = ''population_asc'' then PopulationAsc
      else NameAsc)"

definition getCountries :: "(string \<rightharpoonup> string) \<Rightarrow> world \<Rightarrow> response \<times> world" where
  "getCountries q w =
     (let region = Query q ''region'';
          currency = Query q ''currency'';
          query = \<lparr> where_region = (if region \<noteq> [] then Some region else None),
                    where_currency_code = (if currency \<noteq> [] then Some currency else None),
                    order_clause = sort_order (Query q ''sort'') \<rparr>;
          (result, d) = find_rows query (db w)
      in case result of
           Inl err \<Rightarrow> (internal_error, w\<lparr>db := d\<rparr>)
         | Inr rows \<Rightarrow> (\<lparr> status = 200, body = CountryList rows \<rparr>, w\<lparr>db := d\<rparr>))"

definition getCountryByName :: "string \<Rightarrow> world \<Rightarrow> response \<times> world" where
  "getCountryByName name w =
     (let (result, d) = first_by_name name (db w)
      in case result of
           Inl err \<Rightarrow> (if err = ErrRecordNotFound then not_found else internal_error, w\<lparr>db := d\<rparr>)
         | Inr country \<Rightarrow> (\<lparr> status = 200, body = CountryBody country \<rparr>, w\<lparr>db := d\<rparr>))"

definition deleteCountry :: "string \<Rightarrow> world \<Rightarrow> response \<times> world" where
  "deleteCountry name w =
     (let (result, d1) = first_by_name name (db w);
          country = (case result of Inr found \<Rightarrow> found | Inl err \<Rightarrow> zeroCountry)
      in if result = Inl ErrRecordNotFound then (not_found, w\<lparr>db := d1\<rparr>)
         else let (err, d2) = delete country d1
              in case err of
                   Some e \<Rightarrow> (internal_error, w\<lparr>db := d2\<rparr>)
                 | None \<Rightarrow> (\<lparr> status = 200, body = MessageBody ''Country deleted successfully'' \<rparr>,
                             w\<lparr>db := d2\<rparr>))"

definition getStatus :: "world \<Rightarrow> response \<times> world" where
  "getStatus w =
     (let (count, d1) = count_rows (db w);
          (lastRefresh, d2) = max_last_refreshed d1
      in (\<lparr> status = 200, body = StatusBody count lastRefresh \<rparr>, w\<lparr>db := d2\<rparr>))"

definition getCountriesImage :: "world \<Rightarrow> response \<times> world" where
  "getCountriesImage w =
     (case summary_png w of
        None \<Rightarrow> (\<lparr> status = 404, body = ErrorBody ''Summary image not found'' None \<rparr>, w)
      | Some img \<Rightarrow> (\<lparr> status = 200, body = PngFile img \<rparr>, w))"

section \<open>The routes\<close>

text \<open>
  Fiber tries the routes of a method in the order of their registration and runs the
  first whose pattern matches the path.  With the default configuration that
  \<open>fiber.New\<close> is given here, matching ignores ASCII letter case and one trailing slash;
  a parameter \<open>:name\<close> takes one non-empty segment, as the request wrote it.
\<close>

datatype http_method = GET | POST | DELETE

datatype segment = Lit string | Param string

datatype handler =
  RefreshCountries | GetCountries | GetCountriesImage | GetCountryByName | DeleteCountry | GetStatus

definition routes :: "(http_method \<times> segment list \<times> handler) list" where
  "routes =
     [ (POST, [Lit ''countries'', Lit ''refresh''], RefreshCountries),
       (GET, [Lit ''countries''], GetCountries),
       (GET, [Lit ''countries'', Lit ''image''], GetCountriesImage),
       (GET, [Lit ''countries'', Param ''name''], GetCountryByName),
       (DELETE, [Lit ''countries'', Param ''name''], DeleteCountry),
       (GET, [Lit ''status''], GetStatus) ]"

text \<open>The segments of a path: the pieces between its slashes, after the leading one.\<close>

fun split_slash :: "string \<Rightarrow> string \<Rightarrow> string list" where
  "split_slash acc [] = [rev acc]"
| "split_slash acc (c # cs) =
     (if c = CHR ''/'' then rev acc # split_slash [] cs else split_slash (c # acc) cs)"

definition path_segments :: "string \<Rightarrow> string list option" where
  "path_segments p =
     (case p of
        [] \<Rightarrow> None
      | c # cs \<Rightarrow>
          if c \<noteq> CHR ''/'' then None
          else if cs = [] then Some []
          else Some (split_slash [] (if last cs = CHR ''/'' then butlast cs else cs)))"

fun match_route :: "segment list \<Rightarrow> string list \<Rightarrow> (string \<times> string) list option" where
  "match_route [] [] = Some []"
| "match_route (Lit l # pat) (s # ss) =
     (if LOWER l = LOWER s then match_route pat ss else None)"
| "match_route (Param n # pat) (s # ss) =
     (if s = [] then None else map_option ((#) (n, s)) (match_route pat ss))"
| "match_route pat ss = None"

definition dispatch :: "http_method \<Rightarrow> string \<Rightarrow> (handler \<times> (string \<times> string) list) option" where
  "dispatch m p =
     (case path_segments p of
        None \<Rightarrow> None
      | Some ss \<Rightarrow>
          (case List.map_filter
                  (\<lambda>(m', pat, h). if m' = m then map_option (Pair h) (match_route pat ss) else None)
                  routes of
             [] \<Rightarrow> None
           | hit # others \<Rightarrow> Some hit))"

text \<open>\<open>c.Params(key)\<close>: the empty string when the route has no such parameter.\<close>

definition Params :: "(string \<times> string) list \<Rightarrow> string \<Rightarrow> string" where
  "Params ps key = (case map_of ps key of None \<Rightarrow> [] | Some v \<Rightarrow> v)"

record request =
  req_method :: http_method
  req_path :: string
  req_query :: "string \<rightharpoonup> string"

definition method_name :: "http_method \<Rightarrow> string" where
  "method_name m = (case m of GET \<Rightarrow> ''GET'' | POST \<Rightarrow> ''POST'' | DELETE \<Rightarrow> ''DELETE'')"

text \<open>
  One request through the application, for the three methods it registers routes with
  (the logger and CORS middleware pass such a request on unchanged); a path with no route
  is Fiber's 404, rendered by \<open>customErrorHandler\<close>.
\<close>

definition serve :: "upstream \<Rightarrow> request \<Rightarrow> world \<Rightarrow> response \<times> world" where
  "serve up req w =
     (case dispatch (req_method req) (req_path req) of
        None \<Rightarrow>
          (\<lparr> status = 404,
              body = ErrorBody (''Cannot '' @ method_name (req_method req) @ '' '' @ req_path req) None \<rparr>, w)
      | Some (h, ps) \<Rightarrow>
          (case h of
             RefreshCountries \<Rightarrow> refreshCountries up w
           | GetCountries \<Rightarrow> getCountries (req_query req) w
           | GetCountriesImage \<Rightarrow> getCountriesImage w
           | GetCountryByName \<Rightarrow> getCountryByName (Params ps ''name'') w
           | DeleteCountry \<Rightarrow> deleteCountry (Params ps ''name'') w
           | GetStatus \<Rightarrow> getStatus w))"

section \<open>Sample data\<close>

text \<open>
  The scenario of the specification: Nigeria, 200000000 inhabitants, the naira at 1600 to
  the base currency; a draw of one half gives the multiplier 1500.
\<close>

definition nigeria :: RestCountry where
  "nigeria =
     \<lparr> rc_Name = ''Nigeria'', rc_Capital = ''Abuja'', rc_Region = ''Africa'',
       rc_Population = 200000000, rc_Flag = ''https://flagcdn.com/ng.svg'',
       rc_Currencies = [[''code'' \<mapsto> ''NGN'']] \<rparr>"

text \<open>A record whose currency list is not empty but whose first entry carries no code.\<close>

definition antarctic_base :: RestCountry where
  "antarctic_base =
     \<lparr> rc_Name = ''Antarctic Base'', rc_Capital = [], rc_Region = ''Polar'',
       rc_Population = 1000, rc_Flag = [],
       rc_Currencies = [[''name'' \<mapsto> ''Euro'', ''symbol'' \<mapsto> ''E'']] \<rparr>"

text \<open>A country that uses the base currency, whose rate is exactly one.\<close>

definition ecuador :: RestCountry where
  "ecuador =
     \<lparr> rc_Name = ''Ecuador'', rc_Capital = ''Quito'', rc_Region = ''Americas'',
       rc_Population = 17000000, rc_Flag = ''https://flagcdn.com/ec.svg'',
       rc_Currencies = [[''code'' \<mapsto> ''USD'']] \<rparr>"

definition nigeria_row :: Country where
  "nigeria_row =
     \<lparr> ID = 1, Name = ''Nigeria'', Capital = Some ''Abuja'', Region = Some ''Africa'',
       Population = 200000000, CurrencyCode = Some ''NGN'', ExchangeRate = Some (Finite 1600),
       EstimatedGDP = Some (Finite 187500000), FlagURL = Some ''https://flagcdn.com/ng.svg'',
       LastRefreshedAt = 1761156000 \<rparr>"

definition fresh_world :: world where
  "fresh_world =
     \<lparr> db = \<lparr> countries = [], auto_increment = 1, faults = [] \<rparr>,
       summary_png = None, create_error = None, log_lines = [] \<rparr>"

definition seeded_world :: world where
  "seeded_world =
     \<lparr> db = \<lparr> countries = [nigeria_row], auto_increment = 2, faults = [] \<rparr>,
       summary_png = Some \<lparr> total_countries = 1,
                             top_countries = [(''Nigeria'', Some (Finite 187500000))],
                             last_refresh = 1761156000 \<rparr>,
       create_error = None, log_lines = [] \<rparr>"

definition ghana_row :: Country where
  "ghana_row =
     \<lparr> ID = 2, Name = ''Ghana'', Capital = Some ''Accra'', Region = Some ''Africa'',
       Population = 31072940, CurrencyCode = Some ''GHS'', ExchangeRate = None,
       EstimatedGDP = None, FlagURL = None, LastRefreshedAt = 1761156000 \<rparr>"

definition two_rows_world :: world where
  "two_rows_world =
     \<lparr> db = \<lparr> countries = [nigeria_row, ghana_row], auto_increment = 3, faults = [] \<rparr>,
       summary_png = None, create_error = None, log_lines = [] \<rparr>"

text \<open>A store that holds a country whose name is \<open>image\<close>, and no summary image yet.\<close>

definition image_row :: Country where
  "image_row =
     \<lparr> ID = 1, Name = ''image'', Capital = None, Region = None, Population = 7,
       CurrencyCode = None, ExchangeRate = None, EstimatedGDP = Some (Finite 0),
       FlagURL = None, LastRefreshedAt = 1761156000 \<rparr>"

definition image_world :: world where
  "image_world =
     \<lparr> db = \<lparr> countries = [image_row], auto_increment = 2, faults = [] \<rparr>,
       summary_png = None, create_error = None, log_lines = [] \<rparr>"

definition sample_upstream :: upstream where
  "sample_upstream =
     \<lparr> countries_reply = HttpReply 200 (Json [nigeria]),
       rates_reply = HttpReply 200 (Json [''NGN'' \<mapsto> Finite 1600]),
       clock = 1761156000,
       rand_Float64 = (\<lambda>k. Finite (1 / 2)) \<rparr>"

section \<open>Properties\<close>

declare show_nat.simps [simp del]

subsection \<open>Rounding\<close>

lemma round_half_even_ge:
  assumes "of_int a \<le> x"
  shows "a \<le> round_half_even x"
proof -
  have "a \<le> \<lfloor>x\<rfloor>"
    using assms by (simp add: le_floor_iff)
  then show ?thesis
    by (simp add: round_half_even_def Let_def)
qed

lemma round_half_even_le:
  assumes "x \<le> of_int b"
  shows "round_half_even x \<le> b"
proof (cases "x = of_int \<lfloor>x\<rfloor>")
  case True
  then have "x - of_int \<lfloor>x\<rfloor> < 1 / 2" by simp
  moreover have "\<lfloor>x\<rfloor> \<le> b"
    using assms by (simp add: floor_le_iff)
  ultimately show ?thesis
    by (simp add: round_half_even_def Let_def)
next
  case False
  then have "of_int \<lfloor>x\<rfloor> < x"
    using of_int_floor_le[of x] by linarith
  then have "of_int \<lfloor>x\<rfloor> < (of_int b :: rat)"
    using assms by linarith
  then have "\<lfloor>x\<rfloor> < b"
    by simp
  then show ?thesis
    by (simp add: round_half_even_def Let_def)
qed

lemma binade_lower:
  assumes "x \<noteq> 0"
  shows "2 powi (binade x) \<le> \<bar>x\<bar>"
proof -
  obtain p q where pq: "quotient_of \<bar>x\<bar> = (p, q)"
    by (cases "quotient_of \<bar>x\<bar>")
  have q: "0 < q"
    using pq by (rule quotient_of_denom_pos)
  have x: "\<bar>x\<bar> = of_int p / of_int q"
    using pq by (rule quotient_of_div)
  have p: "0 < p"
  proof -
    have "0 < \<bar>x\<bar>" using assms by simp
    then have "0 < (of_int p :: rat) / of_int q" using x by simp
    with q show ?thesis by (simp add: zero_less_divide_iff)
  qed
  let ?d = "bitlen p - bitlen q"
  show ?thesis
  proof (cases "2 powi ?d \<le> \<bar>x\<bar>")
    case True
    then show ?thesis by (simp add: binade_def pq)
  next
    case False
    have bp: "(2::int) ^ nat (bitlen p - 1) \<le> p" and bq: "q < 2 ^ nat (bitlen q)"
      using bitlen_bounds[OF p] bitlen_bounds[OF q] by simp_all
    have "bitlen p \<noteq> 0" and "bitlen q \<noteq> 0"
      using p q by (simp_all add: bitlen_eq_zero_iff)
    then have lp: "0 < bitlen p" and lq: "0 < bitlen q"
      using bitlen_nonneg[of p] bitlen_nonneg[of q] by linarith+
    have "(2::rat) powi (?d - 1) * of_int q \<le> 2 powi (?d - 1) * 2 ^ nat (bitlen q)"
    proof -
      have "(of_int q :: rat) \<le> of_int (2 ^ nat (bitlen q))"
        using bq by (simp only: of_int_le_iff)
      then show ?thesis by (simp add: mult_left_mono)
    qed
    also have "\<dots> = 2 powi (?d - 1) * 2 powi (bitlen q)"
      using lq by (simp add: power_int_def)
    also have "\<dots> = 2 powi (bitlen p - 1)"
      by (simp add: power_int_add[symmetric])
    also have "\<dots> = 2 ^ nat (bitlen p - 1)"
      using lp by (simp add: power_int_def)
    also have "\<dots> \<le> of_int p"
    proof -
      have "(of_int (2 ^ nat (bitlen p - 1)) :: rat) \<le> of_int p"
        using bp by (simp only: of_int_le_iff)
      then show ?thesis by simp
    qed
    finally have "(2::rat) powi (?d - 1) \<le> of_int p / of_int q"
      using q by (simp add: pos_le_divide_eq)
    moreover have "binade x = ?d - 1"
      using False by (simp add: binade_def pq)
    ultimately show ?thesis
      by (simp only: x)
  qed
qed

lemma binade_le:
  assumes "x \<noteq> 0" and "\<bar>x\<bar> < 2 powi n"
  shows "binade x < n"
proof (rule ccontr)
  assume "\<not> binade x < n"
  then have "n \<le> binade x" by simp
  then have "(2::rat) powi n \<le> 2 powi (binade x)"
    by (simp add: power_int_increasing)
  with binade_lower[OF assms(1)] assms(2) show False
    by linarith
qed

lemma round_f64_between:
  assumes "of_int a * 8 \<le> x" and "x \<le> of_int b * 8" and "0 \<le> a" and "b \<le> 2 ^ 52"
  shows "\<exists>y. round_f64 x = Finite y \<and> of_int a * 8 \<le> y \<and> y \<le> of_int b * 8"
proof (cases "x = 0")
  case True
  with assms show ?thesis by (simp add: round_f64_def)
next
  case False
  have big: "(of_int b :: rat) * 8 \<le> 2 ^ 55"
  proof -
    have "(of_int b :: rat) \<le> of_int (2 ^ 52)"
      using assms(4) by (simp only: of_int_le_iff)
    then show ?thesis by simp
  qed
  have x0: "0 \<le> x"
  proof -
    have "(0::rat) \<le> of_int a * 8" using assms(3) by simp
    with assms(1) show ?thesis by linarith
  qed
  define e where "e = max (binade x) (- 1022)"
  define u :: rat where "u = 2 powi (e - 52)"
  define n where "n = round_half_even (x / u)"
  have "\<bar>x\<bar> < 2 powi 56"
    using x0 assms(2) big by simp
  from binade_le[OF False this] have e: "e \<le> 55"
    by (simp add: e_def)
  have u: "0 < u"
    by (simp add: u_def)
  define N :: int where "N = 2 ^ nat (55 - e)"
  have "(of_int N :: rat) * u = 2 powi (55 - e) * 2 powi (e - 52)"
    using e by (simp add: N_def u_def power_int_def)
  also have "\<dots> = 2 powi 3"
    by (simp add: power_int_add[symmetric])
  finally have N: "(of_int N :: rat) * u = 8"
    by simp
  have lo: "of_int (a * N) \<le> x / u"
  proof -
    have "of_int (a * N) * u = of_int a * (of_int N * u)" by simp
    also have "\<dots> \<le> x" using assms(1) by (simp only: N)
    finally show ?thesis using u by (simp add: pos_le_divide_eq)
  qed
  have hi: "x / u \<le> of_int (b * N)"
  proof -
    have "x \<le> of_int b * (of_int N * u)" using assms(2) by (simp only: N)
    also have "\<dots> = of_int (b * N) * u" by simp
    finally show ?thesis using u by (simp add: pos_divide_le_eq)
  qed
  have n1: "a * N \<le> n" and n2: "n \<le> b * N"
    using round_half_even_ge[OF lo] round_half_even_le[OF hi] by (simp_all add: n_def)
  define y :: rat where "y = of_int n * u"
  have y1: "of_int a * 8 \<le> y"
  proof -
    have "of_int a * 8 = of_int (a * N) * u" by (simp add: N[symmetric])
    also have "\<dots> \<le> of_int n * u"
      using n1 u by (simp only: mult_le_cancel_right_pos of_int_le_iff)
    finally show ?thesis by (simp add: y_def)
  qed
  have y2: "y \<le> of_int b * 8"
  proof -
    have "of_int n * u \<le> of_int (b * N) * u"
      using n2 u by (simp only: mult_le_cancel_right_pos of_int_le_iff)
    also have "\<dots> = of_int b * 8" by (simp add: N[symmetric])
    finally show ?thesis by (simp add: y_def)
  qed
  have "\<not> (y \<noteq> 0 \<and> 1023 < binade y)"
  proof
    assume a: "y \<noteq> 0 \<and> 1023 < binade y"
    have "0 \<le> y"
    proof -
      have "(0::rat) \<le> of_int a * 8" using assms(3) by simp
      with y1 show ?thesis by linarith
    qed
    then have "\<bar>y\<bar> < 2 powi 56"
      using y2 big by simp
    from binade_le[OF _ this] a show False by simp
  qed
  then have "round_f64 x = Finite y"
    using False by (auto simp add: round_f64_def ulp_def e_def[symmetric] u_def[symmetric] n_def[symmetric] y_def Let_def)
  with y1 y2 show ?thesis by blast
qed

text \<open>The rounding at some known points: one tenth, and two ties above \<open>2^53\<close>.\<close>

lemma round_f64_examples:
  "round_f64 (1 / 10) = Finite (3602879701896397 / 36028797018963968)"
  "round_f64 (2 ^ 53 + 1) = Finite (2 ^ 53)"
  "round_f64 (2 ^ 53 + 3) = Finite (2 ^ 53 + 4)"
  "round_f64 1500 = Finite 1500"
  by code_simp+

lemma fused_multiplier_bounds:
  assumes "0 \<le> q" and "q < 1"
  shows "\<exists>m. round_f64 (q * 1000 + 1000) = Finite m \<and> 1000 \<le> m \<and> m \<le> 2000"
proof -
  have "\<exists>m. round_f64 (q * 1000 + 1000) = Finite m \<and> of_int 125 * 8 \<le> m \<and> m \<le> of_int 250 * 8"
    using assms by (intro round_f64_between) simp_all
  then show ?thesis by simp
qed

lemma randomMultiplier_bounds:
  assumes "0 \<le> q" and "q < 1"
  shows "\<exists>m. randomMultiplier (Finite q) = Finite m \<and> 1000 \<le> m \<and> m \<le> 2000"
proof -
  have "\<exists>y. round_f64 (q * 1000) = Finite y \<and> of_int 0 * 8 \<le> y \<and> y \<le> of_int 125 * 8"
    using assms by (intro round_f64_between) simp_all
  then obtain y where y: "round_f64 (q * 1000) = Finite y" "0 \<le> y" "y \<le> 1000"
    by auto
  have "\<exists>m. round_f64 (y + 1000) = Finite m \<and> of_int 125 * 8 \<le> m \<and> m \<le> of_int 250 * 8"
    using y by (intro round_f64_between) simp_all
  then obtain m where m: "round_f64 (y + 1000) = Finite m" "1000 \<le> m" "m \<le> 2000"
    by auto
  have "randomMultiplier (Finite q) = Finite m"
    using y(1) m(1) by (simp add: randomMultiplier_def)
  with m show ?thesis by blast
qed

subsection \<open>The store\<close>

lemma find_SomeD: "find P xs = Some x \<Longrightarrow> x \<in> set xs \<and> P x"
  by (induction xs) (auto split: if_splits)

lemma next_fault_countries [simp]: "countries (snd (next_fault d)) = countries d"
  by (simp add: next_fault_def split: list.splits)

lemma next_fault_Cons: "faults d = f # fs \<Longrightarrow> next_fault d = (f, d\<lparr>faults := fs\<rparr>)"
  by (simp add: next_fault_def)

lemma next_fault_Nil: "faults d = [] \<Longrightarrow> next_fault d = (False, d)"
  by (simp add: next_fault_def)

lemma lower_char_idem [simp]: "lower_char (lower_char c) = lower_char c"
  by (auto simp add: lower_char_def Let_def)

lemma LOWER_idem [simp]: "LOWER (LOWER s) = LOWER s"
  by (simp add: LOWER_def)

lemma sql_eq_LOWER [simp]: "sql_eq (LOWER a) (LOWER b) \<longleftrightarrow> LOWER a = LOWER b"
  by (simp add: sql_eq_def collate_def)

lemma first_by_name_unique:
  assumes "faults d = []" and "table_ok d" and "row \<in> set (countries d)"
    and "LOWER q = LOWER (Name row)"
  shows "first_by_name q d = (Inr row, d)"
proof -
  let ?P = "\<lambda>r. sql_eq (LOWER (Name r)) (LOWER q)"
  have "\<exists>x. x \<in> set (sort_key ID (countries d)) \<and> ?P x"
    using assms(3,4) by auto
  then obtain r where r: "find ?P (sort_key ID (countries d)) = Some r"
    by (cases "find ?P (sort_key ID (countries d))") (auto simp add: find_None_iff)
  from find_SomeD[OF r] have "r \<in> set (countries d)" "LOWER (Name r) = LOWER (Name row)"
    using assms(4) by simp_all
  moreover have "inj_on (\<lambda>row. LOWER (Name row)) (set (countries d))"
    using assms(2) by (simp add: table_ok_def distinct_map)
  ultimately have "r = row"
    using assms(3) by (auto dest: inj_onD)
  with r show ?thesis
    using assms(1) by (simp add: first_by_name_def next_fault_Nil)
qed

lemma find_NoneD: "find P xs = None \<Longrightarrow> x \<in> set xs \<Longrightarrow> \<not> P x"
  by (induction xs) (auto split: if_splits)

lemma filter_ID_remove1:
  assumes "distinct (map ID xs)" and "row \<in> set xs"
  shows "filter (\<lambda>r. ID r \<noteq> ID row) xs = remove1 row xs"
  using assms
proof (induction xs)
  case Nil
  then show ?case by simp
next
  case (Cons x xs)
  show ?case
  proof (cases "x = row")
    case True
    then have "\<forall>r \<in> set xs. ID r \<noteq> ID row"
      using Cons.prems(1) by (force simp add: image_iff)
    then have "filter (\<lambda>r. ID r \<noteq> ID row) xs = xs"
      by (simp add: filter_id_conv)
    with True show ?thesis by simp
  next
    case False
    then have "row \<in> set xs"
      using Cons.prems(2) by simp
    then have "ID x \<noteq> ID row"
      using Cons.prems(1) by (auto simp add: image_iff)
    with False Cons show ?thesis by simp
  qed
qed

lemma map_ID_eq:
  assumes "distinct (map ID xs)" and "row \<in> set xs"
  shows "map (\<lambda>x. if ID x = ID row then f x else x) xs = map (\<lambda>x. if x = row then f x else x) xs"
proof (rule map_cong[OF refl])
  fix x assume "x \<in> set xs"
  moreover have "inj_on ID (set xs)"
    using assms(1) by (simp add: distinct_map)
  ultimately have "ID x = ID row \<longleftrightarrow> x = row"
    using assms(2) by (auto dest: inj_onD)
  then show "(if ID x = ID row then f x else x) = (if x = row then f x else x)"
    by simp
qed

subsection \<open>The summary image\<close>

lemma generateSummaryImage_error [simp]: "fst (generateSummaryImage w) = create_error w"
  by (simp add: generateSummaryImage_def Let_def split: prod.splits option.splits)

lemma generateSummaryImage_countries [simp]:
  "countries (db (snd (generateSummaryImage w))) = countries (db w)"
proof -
  have c: "countries (snd (count_rows d)) = countries d" for d
    by (simp add: count_rows_def Let_def split: prod.splits) (metis next_fault_countries snd_conv)
  have t: "countries (snd (top_by_gdp n d)) = countries d" for n d
    by (simp add: top_by_gdp_def Let_def split: prod.splits) (metis next_fault_countries snd_conv)
  have m: "countries (snd (max_last_refreshed d)) = countries d" for d
    by (simp add: max_last_refreshed_def Let_def split: prod.splits) (metis next_fault_countries snd_conv)
  show ?thesis
    by (simp add: generateSummaryImage_def Let_def split: prod.splits option.splits)
       (metis c t m snd_conv)
qed

lemma generateSummaryImage_failed:
  assumes "create_error w = Some e"
  shows "summary_png (snd (generateSummaryImage w)) = summary_png w"
    and "log_lines (snd (generateSummaryImage w)) = log_lines w"
  using assms by (simp_all add: generateSummaryImage_def Let_def split: prod.splits)

subsection \<open>The outcome of a refresh\<close>

lemma refresh_success:
  assumes "fetchCountries (countries_reply up) = Inr cs"
    and "fetchExchangeRates (rates_reply up) = Inr rs"
  shows "fst (refreshCountries up w) =
           \<lparr> status = 200, body = RefreshBody ''Countries refreshed successfully'' (length cs) (clock up) \<rparr>"
  using assms by (simp add: refreshCountries_def Let_def split: prod.splits)

lemma refresh_world:
  assumes "fetchCountries (countries_reply up) = Inr cs"
    and "fetchExchangeRates (rates_reply up) = Inr rs"
  shows "snd (refreshCountries up w) =
           (let w1 = snd (generateSummaryImage (w\<lparr>db := upsert_all (clock up) rs (rand_Float64 up) cs 0 (db w)\<rparr>))
            in case create_error w of
                 Some e \<Rightarrow> w1\<lparr>log_lines := log_lines w1 @ [''Failed to generate summary image: '' @ e]\<rparr>
               | None \<Rightarrow> w1)"
proof -
  have "fst (generateSummaryImage (w\<lparr>db := d\<rparr>)) = create_error w" for d
    by simp
  then show ?thesis
    using assms
    by (simp add: refreshCountries_def Let_def split_beta)
qed

lemma refresh_countries_failed:
  assumes "fetchCountries (countries_reply up) = Inl err"
  shows "refreshCountries up w =
           (\<lparr> status = 503,
               body = ErrorBody ''External data source unavailable''
                        (Some (''Could not fetch data from restcountries API: '' @ err)) \<rparr>, w)"
  using assms by (simp add: refreshCountries_def)

lemma refresh_rates_failed:
  assumes "fetchCountries (countries_reply up) = Inr cs"
    and "fetchExchangeRates (rates_reply up) = Inl err"
  shows "refreshCountries up w =
           (\<lparr> status = 503,
               body = ErrorBody ''External data source unavailable''
                        (Some (''Could not fetch data from exchange rates API: '' @ err)) \<rparr>, w)"
  using assms by (simp add: refreshCountries_def)

lemma sample_fetches:
  "fetchCountries (countries_reply sample_upstream) = Inr [nigeria]"
  "fetchExchangeRates (rates_reply sample_upstream) = Inr [''NGN'' \<mapsto> Finite 1600]"
  by (simp_all add: sample_upstream_def fetchCountries_def fetchExchangeRates_def)

subsection \<open>The constructed row\<close>

lemma dbCountry_strings:
  "Capital (dbCountry now rs c r) = nilIfEmpty (Some (rc_Capital c))"
  "Region (dbCountry now rs c r) = nilIfEmpty (Some (rc_Region c))"
  "FlagURL (dbCountry now rs c r) = nilIfEmpty (Some (rc_Flag c))"
  by (simp_all add: dbCountry_def Let_def split: prod.splits)

lemma currencyFields_none:
  "fst (currencyFields rs c r) = (None, None, Some (Finite 0))
   \<or> (\<exists>code. fst (fst (currencyFields rs c r)) = Some code)"
  by (auto simp add: currencyFields_def Let_def split: option.splits)

lemma dbCountry_currency:
  "CurrencyCode (dbCountry now rs c r) = fst (fst (currencyFields rs c r))"
  "ExchangeRate (dbCountry now rs c r) = fst (snd (fst (currencyFields rs c r)))"
  "EstimatedGDP (dbCountry now rs c r) = snd (snd (fst (currencyFields rs c r)))"
  by (simp_all add: dbCountry_def Let_def split: prod.splits)

text \<open>One turn of the loop when no statement fails: an insert, or an update in place.\<close>

lemma upsert_insert:
  assumes "faults d = []"
    and "find (\<lambda>row. sql_eq (LOWER (Name row)) (LOWER (rc_Name c))) (sort_key ID (countries d)) = None"
  shows "upsert_all now rs draws (c # cs) k d =
           upsert_all now rs draws cs (if snd (currencyFields rs c (draws k)) then Suc k else k)
             (d\<lparr> countries := countries d @ [(dbCountry now rs c (draws k))\<lparr>ID := auto_increment d\<rparr>],
                 auto_increment := Suc (auto_increment d) \<rparr>)"
  using assms
  by (simp add: first_by_name_def create_def next_fault_Nil Let_def)

lemma upsert_update:
  assumes "faults d = []"
    and "find (\<lambda>row. sql_eq (LOWER (Name row)) (LOWER (rc_Name c))) (sort_key ID (countries d)) = Some existing"
    and "ID existing \<noteq> 0"
  shows "upsert_all now rs draws (c # cs) k d =
           upsert_all now rs draws cs (if snd (currencyFields rs c (draws k)) then Suc k else k)
             (d\<lparr> countries :=
                   map (\<lambda>row. if ID row = ID existing then assign_nonzero (dbCountry now rs c (draws k)) row else row)
                       (countries d) \<rparr>)"
  using assms
  by (simp add: first_by_name_def updates_def next_fault_Nil Let_def)

text \<open>
  C10.  In the row built for an upstream record, an empty capital, region or flag is
  null, a non-empty one is kept as it is, and none of the three fields ever holds the
  empty string.
\<close>

theorem C10_empty_strings_become_null:
  "Capital (dbCountry now rs c r) = (if rc_Capital c = [] then None else Some (rc_Capital c))
   \<and> Region (dbCountry now rs c r) = (if rc_Region c = [] then None else Some (rc_Region c))
   \<and> FlagURL (dbCountry now rs c r) = (if rc_Flag c = [] then None else Some (rc_Flag c))
   \<and> Capital (dbCountry now rs c r) \<noteq> Some []
   \<and> Region (dbCountry now rs c r) \<noteq> Some []
   \<and> FlagURL (dbCountry now rs c r) \<noteq> Some []"
  by (simp add: dbCountry_strings nilIfEmpty_def)

subsection \<open>The estimated GDP\<close>

lemma currencyFields_rate:
  assumes "rc_Currencies c \<noteq> []" and "map_index (hd (rc_Currencies c)) ''code'' = code"
    and "code \<noteq> []" and "rs code = Some rate"
  shows "currencyFields rs c r =
           ((Some code, Some rate,
             Some (f64_div (f64_mul (f64_of_int64 (rc_Population c)) (randomMultiplier r)) rate)), True)"
  using assms by (simp add: currencyFields_def Let_def)

text \<open>
  C1.  Let the draw of the random source be a number in \<open>[0, 1)\<close>, and let the first
  currency code of a record resolve to a rate.  Then the multiplier computed from the
  draw is a finite float64 \<open>m\<close> with \<open>1000 \<le> m \<le> 2000\<close>, the row is built with that
  code, that rate and the estimated GDP \<open>float64(population) * m / rate\<close> (each operation
  rounded to float64), and, when no statement fails, this is the estimated GDP stored in
  the inserted row or in the updated row.  The draw belongs to the refresh: the sample
  refresh stores 187500000 with the draw one half, and run again on the same upstream
  data with the draw one quarter it stores 156250000.
\<close>

theorem C1_gdp_multiplier_in_closed_range:
  assumes "0 \<le> q" and "q < 1" and "draws k = Finite q"
    and "rc_Currencies c \<noteq> []" and "map_index (hd (rc_Currencies c)) ''code'' = code"
    and "code \<noteq> []" and "rs code = Some rate"
  shows "\<exists>m. randomMultiplier (draws k) = Finite m \<and> 1000 \<le> m \<and> m \<le> 2000
      \<and> CurrencyCode (dbCountry now rs c (draws k)) = Some code
      \<and> ExchangeRate (dbCountry now rs c (draws k)) = Some rate
      \<and> EstimatedGDP (dbCountry now rs c (draws k)) =
           Some (f64_div (f64_mul (f64_of_int64 (rc_Population c)) (Finite m)) rate)
      \<and> (faults d = []
           \<and> find (\<lambda>row. sql_eq (LOWER (Name row)) (LOWER (rc_Name c))) (sort_key ID (countries d)) = None
          \<longrightarrow> (\<exists>row. countries (upsert_all now rs draws [c] k d) = countries d @ [row]
                \<and> EstimatedGDP row =
                    Some (f64_div (f64_mul (f64_of_int64 (rc_Population c)) (Finite m)) rate)))
      \<and> (faults d = []
           \<and> find (\<lambda>row. sql_eq (LOWER (Name row)) (LOWER (rc_Name c))) (sort_key ID (countries d)) = Some existing
           \<and> ID existing \<noteq> 0
          \<longrightarrow> (\<forall>row \<in> set (countries (upsert_all now rs draws [c] k d)).
                 ID row = ID existing \<longrightarrow>
                 EstimatedGDP row =
                   Some (f64_div (f64_mul (f64_of_int64 (rc_Population c)) (Finite m)) rate)))
      \<and> map EstimatedGDP (countries (db (snd (refreshCountries sample_upstream fresh_world))))
          = [Some (Finite 187500000)]
      \<and> map EstimatedGDP (countries (db (snd (refreshCountries
                (sample_upstream\<lparr>rand_Float64 := (\<lambda>k. Finite (1 / 4))\<rparr>)
                (snd (refreshCountries sample_upstream fresh_world))))))
          = [Some (Finite 156250000)]"
proof -
  obtain m where m: "randomMultiplier (draws k) = Finite m" "1000 \<le> m" "m \<le> 2000"
    using randomMultiplier_bounds[OF assms(1,2)] assms(3) by auto
  let ?gdp = "Some (f64_div (f64_mul (f64_of_int64 (rc_Population c)) (Finite m)) rate)"
  let ?v = "dbCountry now rs c (draws k)"
  have f: "currencyFields rs c (draws k) = ((Some code, Some rate, ?gdp), True)"
    using currencyFields_rate[of c code rs rate "draws k"] assms(4-7) m(1) by simp
  have v: "CurrencyCode ?v = Some code" "ExchangeRate ?v = Some rate" "EstimatedGDP ?v = ?gdp"
    by (simp_all add: dbCountry_currency f)
  have ins: "\<exists>row. countries (upsert_all now rs draws [c] k d) = countries d @ [row] \<and> EstimatedGDP row = ?gdp"
    if "faults d = []"
      "find (\<lambda>row. sql_eq (LOWER (Name row)) (LOWER (rc_Name c))) (sort_key ID (countries d)) = None"
    using that v(3) by (simp add: upsert_insert del: upsert_all.simps(2))
  have upd: "\<forall>row \<in> set (countries (upsert_all now rs draws [c] k d)).
                 ID row = ID existing \<longrightarrow> EstimatedGDP row = ?gdp"
    if "faults d = []"
      "find (\<lambda>row. sql_eq (LOWER (Name row)) (LOWER (rc_Name c))) (sort_key ID (countries d)) = Some existing"
      "ID existing \<noteq> 0"
  proof -
    have "EstimatedGDP (assign_nonzero ?v row) = ?gdp" for row
      using v(3) by (simp add: assign_nonzero_def)
    then show ?thesis
      using that by (auto simp add: upsert_update simp del: upsert_all.simps(2))
  qed
  have fresh: "map EstimatedGDP (countries (db (snd (refreshCountries sample_upstream fresh_world))))
          = [Some (Finite 187500000)]
      \<and> map EstimatedGDP (countries (db (snd (refreshCountries
                (sample_upstream\<lparr>rand_Float64 := (\<lambda>k. Finite (1 / 4))\<rparr>)
                (snd (refreshCountries sample_upstream fresh_world))))))
          = [Some (Finite 156250000)]"
    by code_simp
  show ?thesis
  proof (intro exI[of _ m] conjI impI)
    assume "faults d = []
           \<and> find (\<lambda>row. sql_eq (LOWER (Name row)) (LOWER (rc_Name c))) (sort_key ID (countries d)) = None"
    then show "\<exists>row. countries (upsert_all now rs draws [c] k d) = countries d @ [row] \<and> EstimatedGDP row = ?gdp"
      using ins by blast
  next
    assume "faults d = []
           \<and> find (\<lambda>row. sql_eq (LOWER (Name row)) (LOWER (rc_Name c))) (sort_key ID (countries d)) = Some existing
           \<and> ID existing \<noteq> 0"
    then show "\<forall>row \<in> set (countries (upsert_all now rs draws [c] k d)).
                 ID row = ID existing \<longrightarrow> EstimatedGDP row = ?gdp"
      using upd by blast
  qed (use m v fresh in simp_all)
qed

theorem C1_witness:
  "(0::rat) \<le> 1 / 2 \<and> (1 / 2 :: rat) < 1
   \<and> randomMultiplier (Finite (1 / 2)) = Finite 1500
   \<and> EstimatedGDP (dbCountry 1761156000 [''NGN'' \<mapsto> Finite 1600] nigeria (Finite (1 / 2)))
       = Some (Finite 187500000)
   \<and> map EstimatedGDP (countries (upsert_all 1761156000 [''NGN'' \<mapsto> Finite 1600] (\<lambda>k. Finite (1 / 2))
                                   [nigeria] 0 (db fresh_world)))
       = [Some (Finite 187500000)]"
proof -
  have m: "randomMultiplier (Finite (1 / 2)) = Finite 1500"
    by code_simp
  have g: "f64_div (f64_mul (f64_of_int64 200000000) (Finite 1500)) (Finite 1600) = Finite 187500000"
    by code_simp
  have c: "rc_Currencies nigeria \<noteq> []" "map_index (hd (rc_Currencies nigeria)) ''code'' = ''NGN''"
    "rc_Population nigeria = 200000000"
    by (simp_all add: nigeria_def map_index_def)
  have d: "faults (db fresh_world) = []" "countries (db fresh_world) = []"
    by (simp_all add: fresh_world_def)
  show ?thesis
    using C1_gdp_multiplier_in_closed_range
            [of "1 / 2" "\<lambda>k. Finite (1 / 2)" 0 nigeria "''NGN''" "[''NGN'' \<mapsto> Finite 1600]" "Finite 1600"
                1761156000 "db fresh_world"]
          m g c d
    by (auto simp del: upsert_all.simps)
qed

text \<open>
  The bound \<open>m < 2000\<close> fails at the largest float64 below one, which is a value of
  \<open>rand.Float64()\<close>: the product rounds to \<open>1000 - 2^-43\<close>, the sum is halfway between
  two float64 numbers and rounds to the even one, \<open>2000\<close> (a fused multiplication and
  addition gives \<open>2000\<close> as well).  For a country whose rate is one the estimated GDP
  is then exactly \<open>population * 2000\<close>.
\<close>

theorem C1_counterexample:
  "(0::rat) \<le> 1 - 1 / 2 ^ 53 \<and> (1 - 1 / 2 ^ 53 :: rat) < 1
   \<and> round_f64 (1 - 1 / 2 ^ 53) = Finite (1 - 1 / 2 ^ 53)
   \<and> randomMultiplier (Finite (1 - 1 / 2 ^ 53)) = Finite 2000
   \<and> round_f64 ((1 - 1 / 2 ^ 53) * 1000 + 1000) = Finite 2000
   \<and> EstimatedGDP (dbCountry 1761156000 [''USD'' \<mapsto> Finite 1] ecuador (Finite (1 - 1 / 2 ^ 53)))
       = Some (Finite (17000000 * 2000 / 1))"
proof -
  have "round_f64 ((1 - 1 / 2 ^ 53) * 1000 + 1000) = Finite 2000"
    by code_simp
  moreover
  have "round_f64 (1 - 1 / 2 ^ 53) = Finite (1 - 1 / 2 ^ 53)"
    by code_simp
  moreover have "randomMultiplier (Finite (1 - 1 / 2 ^ 53)) = Finite 2000"
    by code_simp
  moreover have "EstimatedGDP (dbCountry 1761156000 [''USD'' \<mapsto> Finite 1] ecuador (Finite (1 - 1 / 2 ^ 53)))
       = Some (Finite (17000000 * 2000 / 1))"
    by code_simp
  ultimately show ?thesis
    by simp
qed

subsection \<open>No currency code\<close>

text \<open>
  C2.  The currency code of the row built for a record is absent exactly when the
  record's currency list is empty (or missing) or its first entry has no non-empty
  code.  In every such case the row is built with the exchange rate null and the
  estimated GDP zero, never null.  When no statement fails, a record with no row of its
  name is inserted with these three values, and a row of its name has its estimated GDP
  set to zero.
\<close>

theorem C2_absent_code_gives_zero_gdp:
  "(CurrencyCode (dbCountry now rs c r) = None
      \<longleftrightarrow> rc_Currencies c = [] \<or> map_index (hd (rc_Currencies c)) ''code'' = [])
   \<and> (CurrencyCode (dbCountry now rs c r) = None
      \<longrightarrow> ExchangeRate (dbCountry now rs c r) = None
          \<and> EstimatedGDP (dbCountry now rs c r) = Some (Finite 0))
   \<and> (CurrencyCode (dbCountry now rs c (draws k)) = None \<and> faults d = []
       \<and> find (\<lambda>row. sql_eq (LOWER (Name row)) (LOWER (rc_Name c))) (sort_key ID (countries d)) = None
      \<longrightarrow> (\<exists>row. countries (upsert_all now rs draws [c] k d) = countries d @ [row]
             \<and> CurrencyCode row = None \<and> ExchangeRate row = None
             \<and> EstimatedGDP row = Some (Finite 0)))
   \<and> (CurrencyCode (dbCountry now rs c (draws k)) = None \<and> faults d = []
       \<and> find (\<lambda>row. sql_eq (LOWER (Name row)) (LOWER (rc_Name c))) (sort_key ID (countries d)) = Some existing
       \<and> ID existing \<noteq> 0
      \<longrightarrow> (\<forall>row \<in> set (countries (upsert_all now rs draws [c] k d)).
             ID row = ID existing \<longrightarrow> EstimatedGDP row = Some (Finite 0)))"
proof (intro conjI impI)
  show "CurrencyCode (dbCountry now rs c r) = None
      \<longleftrightarrow> rc_Currencies c = [] \<or> map_index (hd (rc_Currencies c)) ''code'' = []"
    by (auto simp add: dbCountry_currency currencyFields_def Let_def split: option.splits)
next
  assume "CurrencyCode (dbCountry now rs c r) = None"
  then show "ExchangeRate (dbCountry now rs c r) = None"
    using currencyFields_none[of rs c r] by (auto simp add: dbCountry_currency)
next
  assume "CurrencyCode (dbCountry now rs c r) = None"
  then show "EstimatedGDP (dbCountry now rs c r) = Some (Finite 0)"
    using currencyFields_none[of rs c r] by (auto simp add: dbCountry_currency)
next
  assume a: "CurrencyCode (dbCountry now rs c (draws k)) = None \<and> faults d = []
       \<and> find (\<lambda>row. sql_eq (LOWER (Name row)) (LOWER (rc_Name c))) (sort_key ID (countries d)) = None"
  then have f: "fst (currencyFields rs c (draws k)) = (None, None, Some (Finite 0))"
    using currencyFields_none[of rs c "draws k"] by (auto simp add: dbCountry_currency)
  let ?row = "(dbCountry now rs c (draws k))\<lparr>ID := auto_increment d\<rparr>"
  have "countries (upsert_all now rs draws [c] k d) = countries d @ [?row]"
    using a by (simp add: upsert_insert del: upsert_all.simps(2))
  moreover have "CurrencyCode ?row = None \<and> ExchangeRate ?row = None \<and> EstimatedGDP ?row = Some (Finite 0)"
    using f by (simp add: dbCountry_currency)
  ultimately show "\<exists>row. countries (upsert_all now rs draws [c] k d) = countries d @ [row]
             \<and> CurrencyCode row = None \<and> ExchangeRate row = None
             \<and> EstimatedGDP row = Some (Finite 0)"
    by blast
next
  assume a: "CurrencyCode (dbCountry now rs c (draws k)) = None \<and> faults d = []
       \<and> find (\<lambda>row. sql_eq (LOWER (Name row)) (LOWER (rc_Name c))) (sort_key ID (countries d)) = Some existing
       \<and> ID existing \<noteq> 0"
  then have f: "EstimatedGDP (dbCountry now rs c (draws k)) = Some (Finite 0)"
    using currencyFields_none[of rs c "draws k"] by (auto simp add: dbCountry_currency)
  have "countries (upsert_all now rs draws [c] k d) =
          map (\<lambda>row. if ID row = ID existing then assign_nonzero (dbCountry now rs c (draws k)) row else row)
              (countries d)"
    using a by (simp add: upsert_update del: upsert_all.simps(2))
  moreover have "EstimatedGDP (assign_nonzero (dbCountry now rs c (draws k)) row) = Some (Finite 0)" for row
    using f by (simp add: assign_nonzero_def)
  ultimately show "\<forall>row \<in> set (countries (upsert_all now rs draws [c] k d)).
             ID row = ID existing \<longrightarrow> EstimatedGDP row = Some (Finite 0)"
    by auto
qed

theorem C2_witness:
  "CurrencyCode (dbCountry 1761156000 [''NGN'' \<mapsto> Finite 1600] antarctic_base (Finite (1 / 2))) = None
   \<and> ExchangeRate (dbCountry 1761156000 [''NGN'' \<mapsto> Finite 1600] antarctic_base (Finite (1 / 2))) = None
   \<and> EstimatedGDP (dbCountry 1761156000 [''NGN'' \<mapsto> Finite 1600] antarctic_base (Finite (1 / 2))) = Some (Finite 0)
   \<and> (\<exists>row. countries (upsert_all 1761156000 [''NGN'' \<mapsto> Finite 1600] (\<lambda>k. Finite (1 / 2)) [antarctic_base] 0 (db fresh_world)) = [row]
         \<and> CurrencyCode row = None \<and> ExchangeRate row = None \<and> EstimatedGDP row = Some (Finite 0))"
proof -
  have c: "CurrencyCode (dbCountry 1761156000 [''NGN'' \<mapsto> Finite 1600] antarctic_base (Finite (1 / 2))) = None"
    by (simp add: dbCountry_def currencyFields_def antarctic_base_def map_index_def)
  have d: "faults (db fresh_world) = []" "countries (db fresh_world) = []"
    by (simp_all add: fresh_world_def)
  show ?thesis
    using C2_absent_code_gives_zero_gdp
            [of 1761156000 "[''NGN'' \<mapsto> Finite 1600]" antarctic_base "Finite (1 / 2)"
                "\<lambda>k. Finite (1 / 2)" 0 "db fresh_world"]
          c d
    by simp
qed

text \<open>
  The claim as stated fails on a record whose currency list is present and not empty:
  its first entry has no code, the currency code is absent, and the estimated GDP is
  zero, not null.
\<close>

theorem C2_counterexample:
  "rc_Currencies antarctic_base \<noteq> []
   \<and> CurrencyCode (dbCountry 1761156000 [''NGN'' \<mapsto> Finite 1600] antarctic_base (Finite (1 / 2))) = None
   \<and> EstimatedGDP (dbCountry 1761156000 [''NGN'' \<mapsto> Finite 1600] antarctic_base (Finite (1 / 2))) \<noteq> None"
  by (simp add: dbCountry_def currencyFields_def antarctic_base_def map_index_def)

subsection \<open>A currency code with no rate\<close>

text \<open>
  C3.  The stored row of Nigeria holds the naira, the rate 1600 and an estimated GDP.
  A refresh whose rate table has no entry for the naira builds a row with both fields
  null, and \<open>Updates\<close> skips them: the stored row keeps the old rate and the old
  estimated GDP, with the new refresh time.
\<close>

theorem C3_stale_rate_survives_refresh:
  "countries (db seeded_world) = [nigeria_row]
   \<and> countries (db (snd (refreshCountries
        (sample_upstream\<lparr>rates_reply := HttpReply 200 (Json Map.empty), clock := 1761242400\<rparr>)
        seeded_world))) =
       [nigeria_row\<lparr>LastRefreshedAt := 1761242400\<rparr>]
   \<and> CurrencyCode nigeria_row = Some ''NGN''
   \<and> ExchangeRate (nigeria_row\<lparr>LastRefreshedAt := 1761242400\<rparr>) = Some (Finite 1600)
   \<and> EstimatedGDP (nigeria_row\<lparr>LastRefreshedAt := 1761242400\<rparr>) = Some (Finite 187500000)"
  by code_simp

subsection \<open>The sort parameter\<close>

lemma sort_order_default:
  "sortBy \<notin> {''gdp_desc'', ''gdp_asc'', ''population_desc'', ''population_asc''}
   \<Longrightarrow> sort_order sortBy = NameAsc"
  by (simp add: sort_order_def)

lemma getCountries_NameAsc:
  assumes "sort_order (Query q ''sort'') = NameAsc"
  shows "fst (getCountries q w) =
           (if fst (next_fault (db w)) then internal_error
            else \<lparr> status = 200,
                   body = CountryList
                     (sort_key (\<lambda>row. collate (Name row))
                        (filter (satisfies
                            \<lparr> where_region = (if Query q ''region'' \<noteq> [] then Some (Query q ''region'') else None),
                              where_currency_code = (if Query q ''currency'' \<noteq> [] then Some (Query q ''currency'') else None),
                              order_clause = NameAsc \<rparr>)
                          (countries (db w)))) \<rparr>)"
  using assms
  by (simp add: getCountries_def find_rows_def order_rows_def Let_def split_beta)

text \<open>
  C6.  For a \<open>sort\<close> parameter that is absent or is none of \<open>gdp_desc\<close>,
  \<open>gdp_asc\<close>, \<open>population_desc\<close>, \<open>population_asc\<close>, the list is ordered by name
  ascending: the response is the one given when the parameter is absent, its status is
  200 unless the query itself fails in the store, and its rows are the rows that pass
  the filters, in ascending order of their names under the table's collation.
\<close>

theorem C6_unknown_sort_falls_back_to_name:
  assumes "Query q ''sort'' \<notin> {''gdp_desc'', ''gdp_asc'', ''population_desc'', ''population_asc''}"
  shows "sort_order (Query q ''sort'') = NameAsc
    \<and> fst (getCountries q w) = fst (getCountries (q(''sort'' := None)) w)
    \<and> (status (fst (getCountries q w)) = 200 \<longleftrightarrow> \<not> fst (next_fault (db w)))
    \<and> (\<not> fst (next_fault (db w)) \<longrightarrow>
          (\<exists>rows. body (fst (getCountries q w)) = CountryList rows
                 \<and> sorted (map (\<lambda>row. collate (Name row)) rows)
                 \<and> set rows = {row \<in> set (countries (db w)).
                       (Query q ''region'' \<noteq> [] \<longrightarrow> column_eq (Region row) (Query q ''region''))
                     \<and> (Query q ''currency'' \<noteq> [] \<longrightarrow> column_eq (CurrencyCode row) (Query q ''currency''))}))"
proof -
  have o: "sort_order (Query q ''sort'') = NameAsc"
    using assms by (rule sort_order_default)
  have o': "sort_order (Query (q(''sort'' := None)) ''sort'') = NameAsc"
    by (simp add: Query_def sort_order_def)
  have q: "Query (q(''sort'' := None)) ''region'' = Query q ''region''"
    "Query (q(''sort'' := None)) ''currency'' = Query q ''currency''"
    by (simp_all add: Query_def)
  have same: "fst (getCountries q w) = fst (getCountries (q(''sort'' := None)) w)"
    by (simp add: getCountries_NameAsc[OF o] getCountries_NameAsc[OF o'] q)
  have st: "status (fst (getCountries q w)) = 200 \<longleftrightarrow> \<not> fst (next_fault (db w))"
    by (simp add: getCountries_NameAsc[OF o] internal_error_def)
  have rows: "\<exists>rows. body (fst (getCountries q w)) = CountryList rows
                 \<and> sorted (map (\<lambda>row. collate (Name row)) rows)
                 \<and> set rows = {row \<in> set (countries (db w)).
                       (Query q ''region'' \<noteq> [] \<longrightarrow> column_eq (Region row) (Query q ''region''))
                     \<and> (Query q ''currency'' \<noteq> [] \<longrightarrow> column_eq (CurrencyCode row) (Query q ''currency''))}"
    if "\<not> fst (next_fault (db w))"
    using that
    by (auto simp add: getCountries_NameAsc[OF o] satisfies_def)
  show ?thesis
    using o same st rows by blast
qed

theorem C6_witness:
  "Query [''sort'' \<mapsto> ''name_desc''] ''sort'' = ''name_desc''
   \<and> fst (getCountries [''sort'' \<mapsto> ''name_desc''] two_rows_world) =
       \<lparr> status = 200, body = CountryList [ghana_row, nigeria_row] \<rparr>
   \<and> fst (getCountries Map.empty two_rows_world) =
       \<lparr> status = 200, body = CountryList [ghana_row, nigeria_row] \<rparr>"
proof -
  have h: "Query [''sort'' \<mapsto> ''name_desc''] ''sort'' \<notin> {''gdp_desc'', ''gdp_asc'', ''population_desc'', ''population_asc''}"
    by (simp add: Query_def)
  have e: "fst (getCountries Map.empty two_rows_world) =
       \<lparr> status = 200, body = CountryList [ghana_row, nigeria_row] \<rparr>"
    by code_simp
  have m: "[''sort'' \<mapsto> ''name_desc''](''sort'' := None) = Map.empty"
    by simp
  show ?thesis
    using C6_unknown_sort_falls_back_to_name[OF h, of two_rows_world] e m
    by (simp add: Query_def)
qed

subsection \<open>The table's shape is kept\<close>

lemma table_ok_next_fault [simp]: "table_ok (snd (next_fault d)) = table_ok d"
  by (simp add: next_fault_def table_ok_def split: list.splits)

lemma table_ok_create:
  assumes "table_ok d" and "\<forall>r \<in> set (countries d). LOWER (Name r) \<noteq> LOWER (Name row)"
  shows "table_ok (snd (create row d))"
proof -
  obtain failed d' where n: "next_fault d = (failed, d')"
    by (cases "next_fault d")
  then have ok: "table_ok d'" and c: "countries d' = countries d"
    using assms(1) table_ok_next_fault[of d] next_fault_countries[of d] by simp_all
  show ?thesis
  proof (cases failed)
    case True
    with n ok show ?thesis by (simp add: create_def)
  next
    case False
    have "table_ok (d'\<lparr> countries := countries d' @ [row\<lparr>ID := auto_increment d'\<rparr>],
                         auto_increment := Suc (auto_increment d') \<rparr>)"
      using ok assms(2) c by (auto simp add: table_ok_def image_iff)
    with n False show ?thesis by (simp add: create_def)
  qed
qed

lemma table_ok_updates:
  assumes "table_ok d" and "existing \<in> set (countries d) \<or> ID existing = 0"
    and "ID v = 0" and "Name v = [] \<or> LOWER (Name v) = LOWER (Name existing)"
  shows "table_ok (snd (updates existing v d))"
proof (cases "ID existing = 0")
  case True
  with assms(1) show ?thesis by (simp add: updates_def)
next
  case False
  then have mem: "existing \<in> set (countries d)"
    using assms(2) by simp
  obtain failed d' where n: "next_fault d = (failed, d')"
    by (cases "next_fault d")
  then have ok: "table_ok d'" and c: "countries d' = countries d"
    using assms(1) table_ok_next_fault[of d] next_fault_countries[of d] by simp_all
  let ?g = "\<lambda>row. if ID row = ID existing then assign_nonzero v row else row"
  have inj: "inj_on ID (set (countries d))"
    using assms(1) by (simp add: table_ok_def distinct_map)
  have same: "x = existing" if "x \<in> set (countries d)" "ID x = ID existing" for x
    using inj mem that by (auto dest: inj_onD)
  have i: "ID (?g x) = ID x" for x
    using assms(3) by (simp add: assign_nonzero_def)
  have l: "LOWER (Name (?g x)) = LOWER (Name x)" if "x \<in> set (countries d)" for x
    using assms(4) same[OF that] by (auto simp add: assign_nonzero_def)
  have m1: "map ID (map ?g (countries d)) = map ID (countries d)"
    using i by (simp add: comp_def)
  have m2: "map (\<lambda>row. LOWER (Name row)) (map ?g (countries d)) = map (\<lambda>row. LOWER (Name row)) (countries d)"
    unfolding map_map comp_def by (rule map_cong[OF refl]) (use l in blast)
  have i': "ID (assign_nonzero v x) = ID x" for x
    using assms(3) by (simp add: assign_nonzero_def)
  have "table_ok (d'\<lparr>countries := map ?g (countries d')\<rparr>)"
    unfolding table_ok_def
    using ok i i' m1 m2 by (auto simp add: c table_ok_def simp del: map_map)
  with n ok False show ?thesis
    by (cases failed) (simp_all add: updates_def)
qed

lemma table_ok_upsert_all:
  assumes "table_ok d"
  shows "table_ok (upsert_all now rs draws cs k d)"
  using assms
proof (induction cs arbitrary: k d)
  case Nil
  then show ?case by simp
next
  case (Cons c cs)
  obtain result d1 where f: "first_by_name (rc_Name c) d = (result, d1)"
    by (cases "first_by_name (rc_Name c) d")
  have d1: "table_ok d1" and c1: "countries d1 = countries d"
    using f Cons.prems table_ok_next_fault[of d] next_fault_countries[of d]
    by (auto simp add: first_by_name_def Let_def split_beta split: if_splits option.splits)
  let ?row = "dbCountry now rs c (draws k)"
  have row: "ID ?row = 0" "Name ?row = rc_Name c"
    by (simp_all add: dbCountry_def Let_def split_beta)
  let ?d2 = "if result = Inl ErrRecordNotFound then snd (create ?row d1)
             else snd (updates (case result of Inr found \<Rightarrow> found | Inl err \<Rightarrow> zeroCountry) ?row d1)"
  have "table_ok ?d2"
  proof (cases result)
    case (Inl err)
    show ?thesis
    proof (cases "err = ErrRecordNotFound")
      case True
      with f Inl have "find (\<lambda>row. sql_eq (LOWER (Name row)) (LOWER (rc_Name c))) (sort_key ID (countries d1)) = None"
        by (auto simp add: first_by_name_def Let_def split_beta split: if_splits option.splits)
      then have "\<forall>r \<in> set (countries d1). LOWER (Name r) \<noteq> LOWER (Name ?row)"
        by (auto simp add: row dest: find_NoneD)
      with d1 True Inl show ?thesis
        by (simp add: table_ok_create)
    next
      case False
      have "table_ok (snd (updates zeroCountry ?row d1))"
        using d1 by (simp add: updates_def zeroCountry_def)
      with False Inl show ?thesis by simp
    qed
  next
    case (Inr found)
    with f have "find (\<lambda>row. sql_eq (LOWER (Name row)) (LOWER (rc_Name c))) (sort_key ID (countries d1)) = Some found"
      by (auto simp add: first_by_name_def Let_def split_beta split: if_splits option.splits)
    from find_SomeD[OF this] have "found \<in> set (countries d1)" "LOWER (Name ?row) = LOWER (Name found)"
      by (simp_all add: row)
    with d1 row(1) have "table_ok (snd (updates found ?row d1))"
      by (intro table_ok_updates) simp_all
    with Inr show ?thesis by simp
  qed
  from Cons.IH[OF this]
  show ?case
    by (simp add: f Let_def)
qed

subsection \<open>Names up to letter case\<close>

text \<open>
  C5.  Two names that are equal up to letter case are answered alike by get and by
  delete.  When the table has its shape and no statement fails, a name equal up to
  letter case to the name of a stored row finds exactly that row: get returns it, delete
  removes it and nothing else, and the upsert of an upstream record of that name rewrites
  that row in place, leaving the number of rows unchanged.
\<close>

theorem C5_name_matching_ignores_case:
  "(LOWER q = LOWER q' \<longrightarrow>
      getCountryByName q w = getCountryByName q' w \<and> deleteCountry q w = deleteCountry q' w)
   \<and> (row \<in> set (countries (db w)) \<and> LOWER q = LOWER (Name row)
        \<and> faults (db w) = [] \<and> table_ok (db w) \<longrightarrow>
        getCountryByName q w = (\<lparr> status = 200, body = CountryBody row \<rparr>, w)
      \<and> deleteCountry q w =
          (\<lparr> status = 200, body = MessageBody ''Country deleted successfully'' \<rparr>,
           w\<lparr>db := (db w)\<lparr>countries := remove1 row (countries (db w))\<rparr>\<rparr>)
      \<and> (rc_Name c = q \<longrightarrow>
           countries (upsert_all now rs draws [c] k (db w)) =
             map (\<lambda>x. if x = row then assign_nonzero (dbCountry now rs c (draws k)) x else x)
                 (countries (db w))
         \<and> length (countries (upsert_all now rs draws [c] k (db w))) = length (countries (db w))))"
proof (intro conjI impI)
  assume l: "LOWER q = LOWER q'"
  have "first_by_name q d = first_by_name q' d" for d
    unfolding first_by_name_def sql_eq_LOWER l ..
  then show "getCountryByName q w = getCountryByName q' w" "deleteCountry q w = deleteCountry q' w"
    by (simp_all add: getCountryByName_def deleteCountry_def)
next
  assume a: "row \<in> set (countries (db w)) \<and> LOWER q = LOWER (Name row)
        \<and> faults (db w) = [] \<and> table_ok (db w)"
  then have f: "first_by_name q (db w) = (Inr row, db w)"
    by (simp add: first_by_name_unique)
  have id: "ID row \<noteq> 0" and di: "distinct (map ID (countries (db w)))"
    using a by (auto simp add: table_ok_def)
  show "getCountryByName q w = (\<lparr> status = 200, body = CountryBody row \<rparr>, w)"
    by (simp add: getCountryByName_def f)
  show "deleteCountry q w =
          (\<lparr> status = 200, body = MessageBody ''Country deleted successfully'' \<rparr>,
           w\<lparr>db := (db w)\<lparr>countries := remove1 row (countries (db w))\<rparr>\<rparr>)"
    using a id
    by (simp add: deleteCountry_def f delete_def next_fault_Nil filter_ID_remove1[OF di])
  {
    assume n: "rc_Name c = q"
    from f have "find (\<lambda>r. sql_eq (LOWER (Name r)) (LOWER (rc_Name c))) (sort_key ID (countries (db w))) = Some row"
      using a n by (auto simp add: first_by_name_def next_fault_Nil split: option.splits)
    from upsert_update[OF _ this id, of now rs draws Nil k]
    have u: "countries (upsert_all now rs draws [c] k (db w)) =
             map (\<lambda>x. if ID x = ID row then assign_nonzero (dbCountry now rs c (draws k)) x else x)
                 (countries (db w))"
      using a by simp
    show "countries (upsert_all now rs draws [c] k (db w)) =
             map (\<lambda>x. if x = row then assign_nonzero (dbCountry now rs c (draws k)) x else x)
                 (countries (db w))"
      using a by (simp only: u map_ID_eq[OF di])
    show "length (countries (upsert_all now rs draws [c] k (db w))) = length (countries (db w))"
      by (simp only: u length_map)
  }
qed


theorem C5_witness:
  "LOWER ''NIGERIA'' = LOWER (Name nigeria_row)
   \<and> table_ok (db seeded_world)
   \<and> getCountryByName ''NIGERIA'' seeded_world = getCountryByName ''nigeria'' seeded_world
   \<and> getCountryByName ''NIGERIA'' seeded_world = (\<lparr> status = 200, body = CountryBody nigeria_row \<rparr>, seeded_world)
   \<and> countries (db (snd (deleteCountry ''NIGERIA'' seeded_world))) = []
   \<and> length (countries (upsert_all 1761242400 Map.empty (\<lambda>k. Finite (1 / 2))
                [nigeria\<lparr>rc_Name := ''NIGERIA''\<rparr>] 0 (db seeded_world))) = 1"
proof -
  have l: "LOWER ''NIGERIA'' = LOWER (Name nigeria_row)" "LOWER ''NIGERIA'' = LOWER ''nigeria''"
    by code_simp+
  have t: "table_ok (db seeded_world)"
    by (simp add: table_ok_def seeded_world_def nigeria_row_def)
  have m: "nigeria_row \<in> set (countries (db seeded_world))" "faults (db seeded_world) = []"
    "countries (db seeded_world) = [nigeria_row]"
    by (simp_all add: seeded_world_def)
  note c5 = C5_name_matching_ignores_case
            [of "''NIGERIA''" "''nigeria''" seeded_world nigeria_row "nigeria\<lparr>rc_Name := ''NIGERIA''\<rparr>"
                1761242400 Map.empty "\<lambda>k. Finite (1 / 2)" 0]
  have a: "getCountryByName ''NIGERIA'' seeded_world = getCountryByName ''nigeria'' seeded_world"
    using c5 l(2) by blast
  have b: "getCountryByName ''NIGERIA'' seeded_world = (\<lparr> status = 200, body = CountryBody nigeria_row \<rparr>, seeded_world)"
    "deleteCountry ''NIGERIA'' seeded_world =
          (\<lparr> status = 200, body = MessageBody ''Country deleted successfully'' \<rparr>,
           seeded_world\<lparr>db := (db seeded_world)\<lparr>countries := remove1 nigeria_row (countries (db seeded_world))\<rparr>\<rparr>)"
    "length (countries (upsert_all 1761242400 Map.empty (\<lambda>k. Finite (1 / 2))
                [nigeria\<lparr>rc_Name := ''NIGERIA''\<rparr>] 0 (db seeded_world))) = length (countries (db seeded_world))"
    using c5 l(1) t m(1,2) by (simp_all del: upsert_all.simps)
  show ?thesis
    by (simp only: a[symmetric] b l(1) t m(3)) simp
qed

subsection \<open>The route of the summary image\<close>

lemma LOWER_image: "LOWER ''image'' = ''image''"
  by code_simp

lemma match_route_name:
  assumes "match_route [Lit a, Param n] ss = Some ps"
    and "match_route [Lit a, Lit b] ss = None"
  shows "\<exists>s. ps = [(n, s)] \<and> LOWER b \<noteq> LOWER s"
proof (cases ss)
  case Nil
  with assms show ?thesis by simp
next
  case (Cons s1 rest)
  note outer = Cons
  show ?thesis
  proof (cases rest)
    case Nil
    with outer assms show ?thesis by (simp split: if_splits)
  next
    case (Cons s2 rest')
    show ?thesis
    proof (cases rest')
      case Nil
      with outer Cons assms show ?thesis by (auto split: if_splits)
    next
      case (Cons s3 rest'')
      with outer \<open>rest = s2 # rest'\<close> assms show ?thesis by (auto split: if_splits)
    qed
  qed
qed

lemma dispatch_GET_cases:
  assumes "dispatch GET p = Some (h, ps)"
  shows "h = GetCountries \<or> h = GetCountriesImage \<or> h = GetStatus
       \<or> (h = GetCountryByName \<and> (\<exists>s. ps = [(''name'', s)] \<and> LOWER ''image'' \<noteq> LOWER s))"
  using assms
  by (auto simp add: dispatch_def routes_def List.map_filter_simps
           split: option.splits list.splits if_splits dest: match_route_name)

lemma first_by_name_found:
  assumes "first_by_name n d = (Inr row, d')"
  shows "row \<in> set (countries d) \<and> LOWER (Name row) = LOWER n"
proof -
  have "find (\<lambda>row. sql_eq (LOWER (Name row)) (LOWER n)) (sort_key ID (countries (snd (next_fault d)))) = Some row"
    using assms
    by (auto simp add: first_by_name_def Let_def split_beta split: if_splits option.splits)
  from find_SomeD[OF this] show ?thesis
    by simp
qed

lemma getCountryByName_body:
  assumes "body (fst (getCountryByName n w)) = CountryBody row"
  shows "row \<in> set (countries (db w)) \<and> LOWER (Name row) = LOWER n"
proof -
  obtain res d' where f: "first_by_name n (db w) = (res, d')"
    by (cases "first_by_name n (db w)")
  with assms have "res = Inr row"
    by (auto simp add: getCountryByName_def not_found_def internal_error_def split: sum.splits if_splits)
  with f show ?thesis
    using first_by_name_found by blast
qed

lemma other_bodies:
  "body (fst (getCountries q w)) \<noteq> CountryBody row"
  "body (fst (getCountriesImage w)) \<noteq> CountryBody row"
  "body (fst (getStatus w)) \<noteq> CountryBody row"
  by (auto simp add: getCountries_def getCountriesImage_def getStatus_def internal_error_def
        Let_def split_beta split: sum.splits option.splits)

text \<open>
  C9.  A GET of \<open>/countries/image\<close> is served by the summary-image handler, which
  answers with the image file or with 404.  No GET request reaches get-by-name with a
  name that is \<open>image\<close> up to letter case, so no GET request is answered with a stored
  country of that name.  A DELETE of \<open>/countries/image\<close> is served by delete-by-name
  with the name \<open>image\<close>.
\<close>

theorem C9_image_route_shadows_name:
  "serve up \<lparr> req_method = GET, req_path = ''/countries/image'', req_query = q \<rparr> w = getCountriesImage w
   \<and> ((\<exists>img. fst (getCountriesImage w) = \<lparr> status = 200, body = PngFile img \<rparr>)
       \<or> fst (getCountriesImage w) = \<lparr> status = 404, body = ErrorBody ''Summary image not found'' None \<rparr>)
   \<and> (\<forall>p ps. dispatch GET p = Some (GetCountryByName, ps) \<longrightarrow> LOWER (Params ps ''name'') \<noteq> ''image'')
   \<and> (\<forall>req row. req_method req = GET \<and> body (fst (serve up req w)) = CountryBody row
         \<longrightarrow> LOWER (Name row) \<noteq> ''image'')
   \<and> serve up \<lparr> req_method = DELETE, req_path = ''/countries/image'', req_query = q \<rparr> w
       = deleteCountry ''image'' w"
proof (intro conjI allI impI)
  have "dispatch GET ''/countries/image'' = Some (GetCountriesImage, [])"
    by code_simp
  then show "serve up \<lparr> req_method = GET, req_path = ''/countries/image'', req_query = q \<rparr> w = getCountriesImage w"
    by (simp add: serve_def)
next
  show "(\<exists>img. fst (getCountriesImage w) = \<lparr> status = 200, body = PngFile img \<rparr>)
       \<or> fst (getCountriesImage w) = \<lparr> status = 404, body = ErrorBody ''Summary image not found'' None \<rparr>"
    by (cases "summary_png w") (simp_all add: getCountriesImage_def)
next
  fix p ps
  assume "dispatch GET p = Some (GetCountryByName, ps)"
  from dispatch_GET_cases[OF this] show "LOWER (Params ps ''name'') \<noteq> ''image''"
    by (auto simp add: Params_def LOWER_image)
next
  fix req row
  assume "req_method req = GET \<and> body (fst (serve up req w)) = CountryBody row"
  then have a: "body (fst (serve up (req\<lparr>req_method := GET\<rparr>) w)) = CountryBody row"
    by (cases req) auto
  show "LOWER (Name row) \<noteq> ''image''"
  proof (cases "dispatch GET (req_path req)")
    case None
    with a show ?thesis by (simp add: serve_def)
  next
    case (Some hit)
    obtain h ps where hit: "hit = (h, ps)"
      by (cases hit)
    from dispatch_GET_cases[OF Some[unfolded hit]]
    consider "h = GetCountries" | "h = GetCountriesImage" | "h = GetStatus"
      | s where "h = GetCountryByName" "ps = [(''name'', s)]" "LOWER ''image'' \<noteq> LOWER s"
      by blast
    then show ?thesis
    proof cases
      case 4
      with a Some hit have "body (fst (getCountryByName s w)) = CountryBody row"
        by (simp add: serve_def Params_def)
      from getCountryByName_body[OF this] 4(3) show ?thesis
        by (simp add: LOWER_image)
    qed (use a Some hit other_bodies in \<open>simp_all add: serve_def\<close>)
  qed
next
  have "dispatch DELETE ''/countries/image'' = Some (DeleteCountry, [(''name'', ''image'')])"
    by code_simp
  then show "serve up \<lparr> req_method = DELETE, req_path = ''/countries/image'', req_query = q \<rparr> w
       = deleteCountry ''image'' w"
    by (simp add: serve_def Params_def)
qed

theorem C9_witness:
  "fst (serve sample_upstream \<lparr> req_method = GET, req_path = ''/countries/image'', req_query = Map.empty \<rparr> image_world)
     = \<lparr> status = 404, body = ErrorBody ''Summary image not found'' None \<rparr>
   \<and> dispatch GET ''/countries/Nigeria'' = Some (GetCountryByName, [(''name'', ''Nigeria'')])
   \<and> LOWER (Params [(''name'', ''Nigeria'')] ''name'') \<noteq> ''image''
   \<and> serve sample_upstream \<lparr> req_method = DELETE, req_path = ''/countries/image'', req_query = Map.empty \<rparr> image_world
     = (\<lparr> status = 200, body = MessageBody ''Country deleted successfully'' \<rparr>,
        image_world\<lparr>db := (db image_world)\<lparr>countries := []\<rparr>\<rparr>)"
proof -
  have g: "getCountriesImage image_world =
             (\<lparr> status = 404, body = ErrorBody ''Summary image not found'' None \<rparr>, image_world)"
    by (simp add: getCountriesImage_def image_world_def)
  have d: "dispatch GET ''/countries/Nigeria'' = Some (GetCountryByName, [(''name'', ''Nigeria'')])"
    by code_simp
  have e: "deleteCountry ''image'' image_world =
             (\<lparr> status = 200, body = MessageBody ''Country deleted successfully'' \<rparr>,
              image_world\<lparr>db := (db image_world)\<lparr>countries := []\<rparr>\<rparr>)"
    by code_simp
  show ?thesis
    using C9_image_route_shadows_name[of sample_upstream Map.empty image_world] g d e
    by simp
qed

subsection \<open>Upstream failure\<close>

text \<open>
  C4.  When either fetch fails, the refresh writes nothing and answers 503: the world
  after the call is the world before it.  A transport error or a status other than 200
  from the countries source is reported as a failure of the restcountries API, with the
  cause; the same from the rates source, once the countries were fetched, as a failure of
  the exchange rates API.
\<close>

theorem C4_fetch_failure_writes_nothing:
  "(isl (fetchCountries (countries_reply up)) \<or> isl (fetchExchangeRates (rates_reply up))
      \<longrightarrow> snd (refreshCountries up w) = w \<and> status (fst (refreshCountries up w)) = 503)
   \<and> (countries_reply up = TransportError e
      \<longrightarrow> refreshCountries up w =
            (\<lparr> status = 503,
                body = ErrorBody ''External data source unavailable''
                         (Some (''Could not fetch data from restcountries API: '' @ e)) \<rparr>, w))
   \<and> (countries_reply up = HttpReply code cb \<and> code \<noteq> 200
      \<longrightarrow> refreshCountries up w =
            (\<lparr> status = 503,
                body = ErrorBody ''External data source unavailable''
                         (Some (''Could not fetch data from restcountries API: ''
                                @ ''API returned status '' @ show_nat code)) \<rparr>, w))
   \<and> (fetchCountries (countries_reply up) = Inr cs \<and> rates_reply up = TransportError e
      \<longrightarrow> refreshCountries up w =
            (\<lparr> status = 503,
                body = ErrorBody ''External data source unavailable''
                         (Some (''Could not fetch data from exchange rates API: '' @ e)) \<rparr>, w))
   \<and> (fetchCountries (countries_reply up) = Inr cs \<and> rates_reply up = HttpReply code rb \<and> code \<noteq> 200
      \<longrightarrow> refreshCountries up w =
            (\<lparr> status = 503,
                body = ErrorBody ''External data source unavailable''
                         (Some (''Could not fetch data from exchange rates API: ''
                                @ ''API returned status '' @ show_nat code)) \<rparr>, w))"
proof (intro conjI impI)
  assume "isl (fetchCountries (countries_reply up)) \<or> isl (fetchExchangeRates (rates_reply up))"
  then show "snd (refreshCountries up w) = w"
    by (auto simp add: refreshCountries_def split: sum.splits)
next
  assume "isl (fetchCountries (countries_reply up)) \<or> isl (fetchExchangeRates (rates_reply up))"
  then show "status (fst (refreshCountries up w)) = 503"
    by (auto simp add: refreshCountries_def split: sum.splits)
next
  assume "countries_reply up = TransportError e"
  then have "fetchCountries (countries_reply up) = Inl e"
    by (simp add: fetchCountries_def)
  then show "refreshCountries up w =
            (\<lparr> status = 503,
                body = ErrorBody ''External data source unavailable''
                         (Some (''Could not fetch data from restcountries API: '' @ e)) \<rparr>, w)"
    by (rule refresh_countries_failed)
next
  assume "countries_reply up = HttpReply code cb \<and> code \<noteq> 200"
  then have "fetchCountries (countries_reply up) = Inl (''API returned status '' @ show_nat code)"
    by (simp add: fetchCountries_def)
  then show "refreshCountries up w =
            (\<lparr> status = 503,
                body = ErrorBody ''External data source unavailable''
                         (Some (''Could not fetch data from restcountries API: ''
                                @ ''API returned status '' @ show_nat code)) \<rparr>, w)"
    by (rule refresh_countries_failed)
next
  assume a: "fetchCountries (countries_reply up) = Inr cs \<and> rates_reply up = TransportError e"
  then have "fetchExchangeRates (rates_reply up) = Inl e"
    by (simp add: fetchExchangeRates_def)
  with a show "refreshCountries up w =
            (\<lparr> status = 503,
                body = ErrorBody ''External data source unavailable''
                         (Some (''Could not fetch data from exchange rates API: '' @ e)) \<rparr>, w)"
    by (simp add: refresh_rates_failed)
next
  assume a: "fetchCountries (countries_reply up) = Inr cs \<and> rates_reply up = HttpReply code rb \<and> code \<noteq> 200"
  then have "fetchExchangeRates (rates_reply up) = Inl (''API returned status '' @ show_nat code)"
    by (simp add: fetchExchangeRates_def)
  with a show "refreshCountries up w =
            (\<lparr> status = 503,
                body = ErrorBody ''External data source unavailable''
                         (Some (''Could not fetch data from exchange rates API: ''
                                @ ''API returned status '' @ show_nat code)) \<rparr>, w)"
    by (simp add: refresh_rates_failed)
qed

theorem C4_witness:
  "refreshCountries (sample_upstream\<lparr>countries_reply := HttpReply 500 (Json [nigeria])\<rparr>) seeded_world =
     (\<lparr> status = 503,
         body = ErrorBody ''External data source unavailable''
                  (Some ''Could not fetch data from restcountries API: API returned status 500'') \<rparr>,
      seeded_world)
   \<and> refreshCountries (sample_upstream\<lparr>rates_reply := TransportError ''dial tcp: i/o timeout''\<rparr>) seeded_world =
     (\<lparr> status = 503,
         body = ErrorBody ''External data source unavailable''
                  (Some ''Could not fetch data from exchange rates API: dial tcp: i/o timeout'') \<rparr>,
      seeded_world)"
proof -
  have s: "show_nat 500 = ''500''"
    by code_simp
  show ?thesis
    using C4_fetch_failure_writes_nothing
            [of "sample_upstream\<lparr>countries_reply := HttpReply 500 (Json [nigeria])\<rparr>" seeded_world
                "''dial tcp: i/o timeout''" 500 "Json [nigeria]" "[nigeria]" "Json Map.empty"]
          C4_fetch_failure_writes_nothing
            [of "sample_upstream\<lparr>rates_reply := TransportError ''dial tcp: i/o timeout''\<rparr>" seeded_world
                "''dial tcp: i/o timeout''" 500 "Json [nigeria]" "[nigeria]" "Json Map.empty"]
          sample_fetches(1) s
    by simp
qed

subsection \<open>Image failure\<close>

text \<open>
  C7.  When both fetches succeed and the summary image cannot be written,
  \<open>generateSummaryImage\<close> returns the error, the refresh still answers 200 with the
  success payload (message, number of records, refresh time), the error is appended to
  the log and the image file is left as it was.
\<close>

theorem C7_image_failure_is_only_logged:
  assumes "fetchCountries (countries_reply up) = Inr cs"
    and "fetchExchangeRates (rates_reply up) = Inr rs"
    and "create_error w = Some e"
  shows "fst (generateSummaryImage (w\<lparr>db := upsert_all (clock up) rs (rand_Float64 up) cs 0 (db w)\<rparr>)) = Some e
    \<and> fst (refreshCountries up w) =
        \<lparr> status = 200, body = RefreshBody ''Countries refreshed successfully'' (length cs) (clock up) \<rparr>
    \<and> log_lines (snd (refreshCountries up w)) = log_lines w @ [''Failed to generate summary image: '' @ e]
    \<and> summary_png (snd (refreshCountries up w)) = summary_png w"
  using assms
  by (simp add: refresh_success refresh_world generateSummaryImage_failed Let_def)

theorem C7_witness:
  "create_error (fresh_world\<lparr>create_error := Some ''open cache/summary.png: permission denied''\<rparr>)
     = Some ''open cache/summary.png: permission denied''
   \<and> fst (refreshCountries sample_upstream
            (fresh_world\<lparr>create_error := Some ''open cache/summary.png: permission denied''\<rparr>)) =
        \<lparr> status = 200, body = RefreshBody ''Countries refreshed successfully'' 1 1761156000 \<rparr>
   \<and> log_lines (snd (refreshCountries sample_upstream
            (fresh_world\<lparr>create_error := Some ''open cache/summary.png: permission denied''\<rparr>))) =
        [''Failed to generate summary image: open cache/summary.png: permission denied'']
   \<and> summary_png (snd (refreshCountries sample_upstream
            (fresh_world\<lparr>create_error := Some ''open cache/summary.png: permission denied''\<rparr>))) = None"
  using C7_image_failure_is_only_logged
          [OF sample_fetches,
           of "fresh_world\<lparr>create_error := Some ''open cache/summary.png: permission denied''\<rparr>"
              "''open cache/summary.png: permission denied''"]
  by (simp add: fresh_world_def sample_upstream_def)

subsection \<open>Dropped write errors\<close>

lemma upsert_all_writes_fail:
  assumes "\<forall>row \<in> set (countries d). ID row \<noteq> 0"
    and "faults d = concat (replicate (length cs) [False, True])"
  shows "countries (upsert_all now rs draws cs k d) = countries d"
  using assms
proof (induction cs arbitrary: k d)
  case Nil
  then show ?case by simp
next
  case (Cons c cs)
  let ?fs = "concat (replicate (length cs) [False, True])"
  let ?d1 = "d\<lparr>faults := True # ?fs\<rparr>"
  let ?d2 = "d\<lparr>faults := ?fs\<rparr>"
  have f: "faults d = False # True # ?fs"
    using Cons.prems(2) by simp
  have l: "first_by_name (rc_Name c) d =
             (case find (\<lambda>row. sql_eq (LOWER (Name row)) (LOWER (rc_Name c))) (sort_key ID (countries d)) of
                None \<Rightarrow> (Inl ErrRecordNotFound, ?d1)
              | Some row \<Rightarrow> (Inr row, ?d1))"
    by (simp add: first_by_name_def next_fault_Cons[OF f])
  have cr: "snd (create row ?d1) = ?d2" for row
    by (simp add: create_def next_fault_def)
  have up: "ID row \<noteq> 0 \<Longrightarrow> snd (updates row v ?d1) = ?d2" for row v
    by (simp add: updates_def next_fault_def)
  have step: "upsert_all now rs draws (c # cs) k d =
                upsert_all now rs draws cs (if snd (currencyFields rs c (draws k)) then Suc k else k) ?d2"
  proof (cases "find (\<lambda>row. sql_eq (LOWER (Name row)) (LOWER (rc_Name c))) (sort_key ID (countries d))")
    case None
    then show ?thesis by (simp add: l cr Let_def)
  next
    case (Some row)
    then have "row \<in> set (countries d)"
      by (auto dest: find_SomeD)
    then have "ID row \<noteq> 0"
      using Cons.prems(1) by blast
    then show ?thesis using Some by (simp add: l up Let_def)
  qed
  have "countries (upsert_all now rs draws cs k' ?d2) = countries ?d2" for k'
    by (rule Cons.IH) (use Cons.prems(1) in simp_all)
  then show ?case
    by (simp only: step) simp
qed

text \<open>
  C8.  When both fetches succeed, \<open>total_processed\<close> is the number of records the
  countries source returned, whatever the store does: the response does not depend on
  the outcome of any statement.  In particular, when every lookup succeeds and every
  insert and update fails, no row of the table changes and the response still counts
  every record.
\<close>

theorem C8_total_processed_ignores_write_errors:
  assumes "fetchCountries (countries_reply up) = Inr cs"
    and "fetchExchangeRates (rates_reply up) = Inr rs"
  shows "fst (refreshCountries up w) =
           \<lparr> status = 200, body = RefreshBody ''Countries refreshed successfully'' (length cs) (clock up) \<rparr>
    \<and> ((\<forall>row \<in> set (countries (db w)). ID row \<noteq> 0)
         \<and> faults (db w) = concat (replicate (length cs) [False, True])
        \<longrightarrow> countries (db (snd (refreshCountries up w))) = countries (db w))"
proof (intro conjI impI)
  show "fst (refreshCountries up w) =
           \<lparr> status = 200, body = RefreshBody ''Countries refreshed successfully'' (length cs) (clock up) \<rparr>"
    using assms by (rule refresh_success)
next
  assume a: "(\<forall>row \<in> set (countries (db w)). ID row \<noteq> 0)
         \<and> faults (db w) = concat (replicate (length cs) [False, True])"
  have "countries (db (snd (refreshCountries up w))) =
          countries (upsert_all (clock up) rs (rand_Float64 up) cs 0 (db w))"
    by (simp add: refresh_world[OF assms] Let_def split: option.splits)
  also have "\<dots> = countries (db w)"
    using a by (simp add: upsert_all_writes_fail)
  finally show "countries (db (snd (refreshCountries up w))) = countries (db w)" .
qed

theorem C8_witness:
  "fst (refreshCountries sample_upstream (fresh_world\<lparr>db := (db fresh_world)\<lparr>faults := [False, True]\<rparr>\<rparr>)) =
     \<lparr> status = 200, body = RefreshBody ''Countries refreshed successfully'' 1 1761156000 \<rparr>
   \<and> countries (db (snd (refreshCountries sample_upstream
                          (fresh_world\<lparr>db := (db fresh_world)\<lparr>faults := [False, True]\<rparr>\<rparr>)))) = []"
  using C8_total_processed_ignores_write_errors
          [OF sample_fetches, of "fresh_world\<lparr>db := (db fresh_world)\<lparr>faults := [False, True]\<rparr>\<rparr>"]
  by (simp add: fresh_world_def sample_upstream_def)

end
